theory Spec2Isabelle
  imports Complex_Main "HOL-Library.Sublist" "HOL-Library.AList"
begin

section \<open>Errors of the Figma client\<close>

text \<open>
  The client raises \<^verbatim>\<open>FigmaClientError(message, code, statusCode?)\<close> and its two
  subclasses, which fix all three fields. Plain JavaScript errors and thrown values
  that are no \<^verbatim>\<open>Error\<close> at all also travel through the \<^verbatim>\<open>catch\<close> blocks, so they
  are values of the same type.
\<close>

datatype js_error =
    FigmaClientError string string "int option"
  | FigmaServerUnavailableError
  | FigmaAuthenticationError
  | JsError string
  | JsTypeError string
  | NonError string

fun error_message :: "js_error \<Rightarrow> string" where
  "error_message (FigmaClientError m c s) = m"
| "error_message FigmaServerUnavailableError =
     ''Figma MCP server is not available. Please ensure Figma desktop app is running.''"
| "error_message FigmaAuthenticationError =
     ''Authentication failed. Please check your Figma permissions.''"
| "error_message (JsError m) = m"
| "error_message (JsTypeError m) = m"
| "error_message (NonError s) = s"

fun error_code :: "js_error \<Rightarrow> string option" where
  "error_code (FigmaClientError m c s) = Some c"
| "error_code FigmaServerUnavailableError = Some ''SERVER_UNAVAILABLE''"
| "error_code FigmaAuthenticationError = Some ''AUTH_FAILED''"
| "error_code e = None"

fun error_status :: "js_error \<Rightarrow> int option" where
  "error_status (FigmaClientError m c s) = s"
| "error_status FigmaServerUnavailableError = Some 503"
| "error_status FigmaAuthenticationError = Some 401"
| "error_status e = None"

text \<open>\<^verbatim>\<open>error instanceof FigmaClientError\<close>: true of the class and its subclasses.\<close>

fun instanceof_FigmaClientError :: "js_error \<Rightarrow> bool" where
  "instanceof_FigmaClientError (FigmaClientError m c s) = True"
| "instanceof_FigmaClientError FigmaServerUnavailableError = True"
| "instanceof_FigmaClientError FigmaAuthenticationError = True"
| "instanceof_FigmaClientError e = False"

text \<open>\<^verbatim>\<open>error instanceof Error\<close>: false only of a thrown non-error value.\<close>

fun instanceof_Error :: "js_error \<Rightarrow> bool" where
  "instanceof_Error (NonError s) = False"
| "instanceof_Error e = True"

text \<open>
  \<^verbatim>\<open>error instanceof Error ? error.message : String(error)\<close>. A thrown value that
  is no error carries its \<^verbatim>\<open>String(...)\<close> rendering.
\<close>

definition message_or_string :: "js_error \<Rightarrow> string" where
  "message_or_string e = (case e of NonError s \<Rightarrow> s | other \<Rightarrow> error_message other)"

section \<open>Result cache\<close>

text \<open>
  \<^verbatim>\<open>private cache = new Map<string, CacheEntry>()\<close>. Times are \<^verbatim>\<open>Date.now()\<close>
  readings in milliseconds; the reading is passed in as \<open>now\<close>.
\<close>

record 'a cache_entry =
  data :: 'a
  timestamp :: int
  ttl :: int

type_synonym 'a cache = "string \<rightharpoonup> 'a cache_entry"

definition getFromCache :: "'a cache \<Rightarrow> string \<Rightarrow> int \<Rightarrow> 'a option \<times> 'a cache" where
  "getFromCache c key now =
     (case c key of
        None \<Rightarrow> (None, c)
      | Some entry \<Rightarrow>
          if now - timestamp entry > ttl entry then (None, c(key := None))
          else (Some (data entry), c))"

definition setCache :: "'a cache \<Rightarrow> string \<Rightarrow> 'a \<Rightarrow> int \<Rightarrow> int \<Rightarrow> 'a cache" where
  "setCache c key d now cacheTTL =
     c(key \<mapsto> \<lparr>data = d, timestamp = now, ttl = cacheTTL\<rparr>)"

definition clearCache :: "'a cache \<Rightarrow> 'a cache" where
  "clearCache c = Map.empty"

section \<open>Progress tracker\<close>

record progress_tracker =
  startTime :: int
  stageStartTimes :: "string \<rightharpoonup> int"
  stageDurations :: "string \<rightharpoonup> int"
  currentStage :: string
  timeoutOccurred :: bool
  timeoutStage :: "string option"
  cacheHits :: nat
  retryAttempts :: nat

record performance_metrics =
  totalDuration :: int
  variablesDuration :: int
  componentsDuration :: int
  codeDuration :: int
  pm_timeoutOccurred :: bool
  pm_timeoutStage :: "string option"
  pm_cacheHits :: nat
  pm_retryAttempts :: nat

definition start :: "int \<Rightarrow> progress_tracker" where
  "start now =
     \<lparr>startTime = now, stageStartTimes = Map.empty, stageDurations = Map.empty,
      currentStage = [], timeoutOccurred = False, timeoutStage = None,
      cacheHits = 0, retryAttempts = 0\<rparr>"

definition recordTimeout :: "string \<Rightarrow> progress_tracker \<Rightarrow> progress_tracker" where
  "recordTimeout stage t = t\<lparr>timeoutOccurred := True, timeoutStage := Some stage\<rparr>"

definition recordCacheHit :: "progress_tracker \<Rightarrow> progress_tracker" where
  "recordCacheHit t = t\<lparr>cacheHits := cacheHits t + 1\<rparr>"

definition recordRetryAttempt :: "progress_tracker \<Rightarrow> progress_tracker" where
  "recordRetryAttempt t = t\<lparr>retryAttempts := retryAttempts t + 1\<rparr>"

text \<open>\<^verbatim>\<open>this.stageDurations.get(stage) || 0\<close>: a missing or zero duration reads as 0.\<close>

definition duration_or_zero :: "(string \<rightharpoonup> int) \<Rightarrow> string \<Rightarrow> int" where
  "duration_or_zero m stage = (case m stage of None \<Rightarrow> 0 | Some d \<Rightarrow> d)"

definition getPerformanceMetrics :: "int \<Rightarrow> progress_tracker \<Rightarrow> performance_metrics" where
  "getPerformanceMetrics now t =
     \<lparr>totalDuration = now - startTime t,
      variablesDuration = duration_or_zero (stageDurations t) ''variables'',
      componentsDuration = duration_or_zero (stageDurations t) ''components'',
      codeDuration = duration_or_zero (stageDurations t) ''code'',
      pm_timeoutOccurred = timeoutOccurred t,
      pm_timeoutStage = timeoutStage t,
      pm_cacheHits = cacheHits t,
      pm_retryAttempts = retryAttempts t\<rparr>"

text \<open>
  The score is a JavaScript number; it leaves the integers only through the division
  by 1000, so it is computed here over the reals.
\<close>

definition getEfficiencyScore :: "int \<Rightarrow> progress_tracker \<Rightarrow> real" where
  "getEfficiencyScore now t =
     (let metrics = getPerformanceMetrics now t;
          totalTime = totalDuration metrics;
          score0 = (100 :: real);
          score1 = (if totalTime > 15000
                    then score0 - min 30 (real_of_int (totalTime - 15000) / 1000)
                    else score0);
          score2 = (if pm_timeoutOccurred metrics then score1 - 20 else score1);
          score3 = score2 - real (pm_retryAttempts metrics) * 5;
          score4 = score3 + real (pm_cacheHits metrics) * 2
      in max 0 (min 100 score4))"

section \<open>JavaScript values and strings\<close>

text \<open>
  Remote payloads are typed \<^verbatim>\<open>any\<close>; they are modelled as JSON values. Strings are
  lists of characters; the patterns below only look at ASCII characters.
\<close>

datatype json =
    JNull
  | JBool bool
  | JNum real
  | JStr string
  | JArr "json list"
  | JObj "(string \<times> json) list"

text \<open>Truthiness, as tested by \<^verbatim>\<open>if (v)\<close> and \<^verbatim>\<open>v || d\<close>.\<close>

fun truthy :: "json \<Rightarrow> bool" where
  "truthy JNull = False"
| "truthy (JBool b) = b"
| "truthy (JNum n) = (n \<noteq> 0)"
| "truthy (JStr s) = (s \<noteq> [])"
| "truthy (JArr xs) = True"
| "truthy (JObj kvs) = True"

text \<open>
  Property access \<^verbatim>\<open>v?.name\<close>: \<open>None\<close> is \<^verbatim>\<open>undefined\<close>. Only objects carry the
  properties read by the code.
\<close>

fun get_prop :: "json \<Rightarrow> string \<Rightarrow> json option" where
  "get_prop (JObj kvs) name = map_of kvs name"
| "get_prop v name = None"

text \<open>\<^verbatim>\<open>v || d\<close> for a possibly undefined \<open>v\<close>.\<close>

definition or_else :: "json option \<Rightarrow> json \<Rightarrow> json" where
  "or_else v d = (case v of None \<Rightarrow> d | Some x \<Rightarrow> if truthy x then x else d)"

definition is_digit :: "char \<Rightarrow> bool" where
  "is_digit c = (c \<in> set ''0123456789'')"

definition is_alnum :: "char \<Rightarrow> bool" where
  "is_alnum c =
     (c \<in> set ''abcdefghijklmnopqrstuvwxyzABCDEFGHIJKLMNOPQRSTUVWXYZ0123456789'')"

text \<open>\<^verbatim>\<open>s.replace(/%3A/g, ':')\<close>.\<close>

fun replace_3A :: "string \<Rightarrow> string" where
  "replace_3A [] = []"
| "replace_3A (c # cs) =
     (if prefix ''%3A'' (c # cs) then CHR '':'' # replace_3A (drop 2 cs)
      else c # replace_3A cs)"

section \<open>URL parsing\<close>

text \<open>
  \<^verbatim>\<open>/figma\.com\/(?:file|design)\/([a-zA-Z0-9]+)/\<close> tried at the head of the string:
  the captured group when the pattern matches there.
\<close>

definition alnum_run :: "string \<Rightarrow> string option" where
  "alnum_run s = (let a = takeWhile is_alnum s in if a = [] then None else Some a)"

definition urlPattern_here :: "string \<Rightarrow> string option" where
  "urlPattern_here s =
     (if prefix ''figma.com/file/'' s then alnum_run (drop 15 s)
      else if prefix ''figma.com/design/'' s then alnum_run (drop 17 s)
      else None)"

text \<open>\<^verbatim>\<open>url.match(urlPattern)\<close>: the leftmost match.\<close>

fun match_urlPattern :: "string \<Rightarrow> string option" where
  "match_urlPattern [] = None"
| "match_urlPattern (c # cs) =
     (case urlPattern_here (c # cs) of
        Some fid \<Rightarrow> Some fid
      | None \<Rightarrow> match_urlPattern cs)"

text \<open>The group \<^verbatim>\<open>([^&]+)\<close>: the longest run of characters other than \<^verbatim>\<open>&\<close>.\<close>

definition not_amp_run :: "string \<Rightarrow> string option" where
  "not_amp_run s =
     (let a = takeWhile (\<lambda>c. c \<noteq> CHR ''&'') s in if a = [] then None else Some a)"

text \<open>\<^verbatim>\<open>url.match(/[?&]node-id=([^&]+)/)\<close>, used by \<^verbatim>\<open>parseFigmaUrl\<close>.\<close>

fun match_query_node_id :: "string \<Rightarrow> string option" where
  "match_query_node_id [] = None"
| "match_query_node_id (c # cs) =
     (if (c = CHR ''?'' \<or> c = CHR ''&'') \<and> prefix ''node-id='' cs
         \<and> not_amp_run (drop 8 cs) \<noteq> None
      then not_amp_run (drop 8 cs)
      else match_query_node_id cs)"

definition parseFigmaUrl :: "string \<Rightarrow> js_error + (string \<times> string option)" where
  "parseFigmaUrl u =
     (case match_urlPattern u of
        None \<Rightarrow> Inl (FigmaClientError ''Invalid Figma URL format'' ''INVALID_URL'' None)
      | Some fid \<Rightarrow>
          (let nodeId = map_option replace_3A (match_query_node_id u)
           in Inr (fid, case nodeId of
                          None \<Rightarrow> None
                        | Some n \<Rightarrow> if n \<noteq> [] then Some n else None)))"

section \<open>Extraction input, complexity heuristic and stage timeouts\<close>

record extraction_options =
  includeVariants :: "bool option"
  includeTokens :: "bool option"
  includeCode :: "bool option"
  maxWaitTime :: "real option"

text \<open>
  Pre-extracted data as \<^verbatim>\<open>FigmaDataSchema\<close> types it; optional fields are \<open>None\<close>
  when absent (or \<^verbatim>\<open>null\<close>, for the code).
\<close>

record figma_data =
  pre_fileId :: string
  pre_nodeId :: "string option"
  pre_url :: string
  pre_code :: "string option"
  pre_components :: "json list option"
  pre_variables :: "json list option"
  pre_codeConnectMap :: "json list option"

text \<open>
  \<^verbatim>\<open>figmaData\<close> is a union of the schema above and the empty object; only the
  former has a \<^verbatim>\<open>fileId\<close> field.
\<close>

datatype figma_data_arg = EmptyObject | FigmaData figma_data

record streaming_input =
  input_url :: "string option"
  input_figmaData :: "figma_data_arg option"
  input_options :: "extraction_options option"

record stage_timeouts =
  variables_timeout :: real
  components_timeout :: real
  code_timeout :: real

definition DEFAULT_STAGE_TIMEOUTS :: stage_timeouts where
  "DEFAULT_STAGE_TIMEOUTS =
     \<lparr>variables_timeout = 5000, components_timeout = 10000, code_timeout = 15000\<rparr>"

text \<open>\<^verbatim>\<open>url.match(/node-id=([^&]+)/)\<close>, used by \<^verbatim>\<open>detectComplexLayout\<close>.\<close>

fun match_node_id :: "string \<Rightarrow> string option" where
  "match_node_id [] = None"
| "match_node_id (c # cs) =
     (if prefix ''node-id='' (c # cs) \<and> not_amp_run (drop 8 (c # cs)) \<noteq> None
      then not_amp_run (drop 8 (c # cs))
      else match_node_id cs)"

text \<open>\<^verbatim>\<open>/\d{4,}/.test(nodeId)\<close>: four digits in a row somewhere.\<close>

fun hasHighNumbers :: "string \<Rightarrow> bool" where
  "hasHighNumbers [] = False"
| "hasHighNumbers (c # cs) =
     (4 \<le> length (takeWhile is_digit (c # cs)) \<or> hasHighNumbers cs)"

text \<open>\<^verbatim>\<open>(nodeId.match(/-/g) || []).length >= 2\<close>.\<close>

definition hasMultipleParts :: "string \<Rightarrow> bool" where
  "hasMultipleParts nodeId = (2 \<le> length (filter (\<lambda>c. c = CHR ''-'') nodeId))"

text \<open>\<^verbatim>\<open>/^(13\d\d|1[4-9]\d\d|[2-9]\d\d\d)/.test(nodeId)\<close>.\<close>

fun isInComplexRange :: "string \<Rightarrow> bool" where
  "isInComplexRange (a # b # c # d # rest) =
     ((a = CHR ''1'' \<and> b = CHR ''3'' \<and> is_digit c \<and> is_digit d)
      \<or> (a = CHR ''1'' \<and> b \<in> set ''456789'' \<and> is_digit c \<and> is_digit d)
      \<or> (a \<in> set ''23456789'' \<and> is_digit b \<and> is_digit c \<and> is_digit d))"
| "isInComplexRange s = False"

definition detectComplexLayout :: "string option \<Rightarrow> bool" where
  "detectComplexLayout u =
     (case u of
        None \<Rightarrow> False
      | Some s \<Rightarrow>
          if s = [] then False
          else (case match_node_id s of
                  Some nodeId \<Rightarrow>
                    hasHighNumbers nodeId \<or> hasMultipleParts nodeId \<or> isInComplexRange nodeId
                | None \<Rightarrow> False))"

text \<open>
  \<^verbatim>\<open>input.options?.maxWaitTime || 15000\<close>: an absent or zero value reads as 15000.
  The products are taken over the reals.
\<close>

definition maxWaitTime_of :: "streaming_input \<Rightarrow> real" where
  "maxWaitTime_of i =
     (case input_options i of
        None \<Rightarrow> 15000
      | Some opts \<Rightarrow>
          (case maxWaitTime opts of
             None \<Rightarrow> 15000
           | Some m \<Rightarrow> if m = 0 then 15000 else m))"

definition getStageTimeouts :: "streaming_input \<Rightarrow> stage_timeouts" where
  "getStageTimeouts i =
     (let m = maxWaitTime_of i;
          isComplexLayout = detectComplexLayout (input_url i)
      in if isComplexLayout
         then \<lparr>variables_timeout = min 3000 (m * 0.2),
               components_timeout = min 5000 (m * 0.3),
               code_timeout = min 8000 (m * 0.5)\<rparr>
         else \<lparr>variables_timeout = min (variables_timeout DEFAULT_STAGE_TIMEOUTS) (m * 0.3),
               components_timeout = min (components_timeout DEFAULT_STAGE_TIMEOUTS) (m * 0.6),
               code_timeout = min (code_timeout DEFAULT_STAGE_TIMEOUTS) m\<rparr>)"

section \<open>Transport: one request over a server-sent-event session\<close>

text \<open>Decimal rendering of a status code inside a template literal.\<close>

fun string_of_nat :: "nat \<Rightarrow> string" where
  "string_of_nat n =
     (if n < 10 then [''0123456789'' ! n]
      else string_of_nat (n div 10) @ [''0123456789'' ! (n mod 10)])"

declare string_of_nat.simps [simp del]

text \<open>\<^verbatim>\<open>s.split('\n')\<close>: never empty, the last element is the unterminated rest.\<close>

fun split_lines :: "string \<Rightarrow> string list" where
  "split_lines [] = [[]]"
| "split_lines (c # cs) =
     (if c = CHR 0x0A then [] # split_lines cs
      else (case split_lines cs of
              [] \<Rightarrow> [[c]]
            | l # ls \<Rightarrow> (c # l) # ls))"

text \<open>
  \<^verbatim>\<open>s.trim()\<close> strips white space and line terminators from both ends. A string is
  held here as the UTF-8 bytes of its text, so the characters beyond ASCII that
  \<^verbatim>\<open>trim\<close> strips are sequences of two or three bytes: U+00A0; and U+1680, U+2000 to
  U+200A, U+2028, U+2029, U+202F, U+205F, U+3000 and U+FEFF.
\<close>

definition is_space :: "char \<Rightarrow> bool" where
  "is_space c = (c \<in> {CHR 0x09, CHR 0x0A, CHR 0x0B, CHR 0x0C, CHR 0x0D, CHR 0x20})"

definition white_space_2 :: string where
  "white_space_2 = [CHR 0xC2, CHR 0xA0]"

definition white_space_3 :: "string list" where
  "white_space_3 =
     [[CHR 0xE1, CHR 0x9A, CHR 0x80],
      [CHR 0xE2, CHR 0x80, CHR 0x80], [CHR 0xE2, CHR 0x80, CHR 0x81],
      [CHR 0xE2, CHR 0x80, CHR 0x82], [CHR 0xE2, CHR 0x80, CHR 0x83],
      [CHR 0xE2, CHR 0x80, CHR 0x84], [CHR 0xE2, CHR 0x80, CHR 0x85],
      [CHR 0xE2, CHR 0x80, CHR 0x86], [CHR 0xE2, CHR 0x80, CHR 0x87],
      [CHR 0xE2, CHR 0x80, CHR 0x88], [CHR 0xE2, CHR 0x80, CHR 0x89],
      [CHR 0xE2, CHR 0x80, CHR 0x8A],
      [CHR 0xE2, CHR 0x80, CHR 0xA8], [CHR 0xE2, CHR 0x80, CHR 0xA9],
      [CHR 0xE2, CHR 0x80, CHR 0xAF],
      [CHR 0xE2, CHR 0x81, CHR 0x9F],
      [CHR 0xE3, CHR 0x80, CHR 0x80],
      [CHR 0xEF, CHR 0xBB, CHR 0xBF]]"

text \<open>
  Stripping at the head of a list, for given encodings of the longer characters; the
  tail end of a string is stripped on the reversed list with the encodings reversed.
\<close>

fun strip_white :: "string \<Rightarrow> string list \<Rightarrow> string \<Rightarrow> string" where
  "strip_white two three (a # b # c # s) =
     (if is_space a then strip_white two three (b # c # s)
      else if [a, b] = two then strip_white two three (c # s)
      else if [a, b, c] \<in> set three then strip_white two three s
      else a # b # c # s)"
| "strip_white two three [a, b] =
     (if is_space a then strip_white two three [b]
      else if [a, b] = two then []
      else [a, b])"
| "strip_white two three [a] = (if is_space a then [] else [a])"
| "strip_white two three [] = []"

definition trim :: "string \<Rightarrow> string" where
  "trim s =
     rev (strip_white (rev white_space_2) (map rev white_space_3)
            (rev (strip_white white_space_2 white_space_3 s)))"

text \<open>\<^verbatim>\<open>lines.indexOf(line)\<close> for a line that occurs in the list: its first position.\<close>

fun indexOf :: "'a list \<Rightarrow> 'a \<Rightarrow> nat" where
  "indexOf [] x = 0"
| "indexOf (y # ys) x = (if y = x then 0 else Suc (indexOf ys x))"

text \<open>
  The loop that looks for the session endpoint in the lines of the first chunk. The
  data line is looked up behind the first line equal to the current one, as
  \<^verbatim>\<open>indexOf\<close> finds it.
\<close>

fun endpoint_loop :: "string list \<Rightarrow> string list \<Rightarrow> string option" where
  "endpoint_loop lines [] = None"
| "endpoint_loop lines (line # rest) =
     (if prefix ''event: endpoint'' line then
        (let dataLineIndex = indexOf lines line + 1 in
         if dataLineIndex < length lines \<and> prefix ''data: '' (lines ! dataLineIndex)
         then Some (drop 6 (lines ! dataLineIndex))
         else endpoint_loop lines rest)
      else endpoint_loop lines rest)"

definition find_sessionEndpoint :: "string \<Rightarrow> string option" where
  "find_sessionEndpoint chunk = (let lines = split_lines chunk in endpoint_loop lines lines)"

text \<open>
  What the stream reader delivers. The first read of a session is awaited without a
  timer; the later reads race against the response timer, whose firing is an event of
  the stream. A stream that has nothing more to deliver leaves the timer to fire.
\<close>

datatype first_read = FirstChunk string | FirstDone | FirstThrows js_error

datatype read_result = Chunk string | Done | ReadThrows js_error | TimerFires

record sse_response =
  sse_status :: nat
  sse_body :: "(first_read \<times> read_result list) option"

record http_response =
  status :: nat
  statusText :: string
  text_body :: "js_error + string"

text \<open>\<^verbatim>\<open>response.ok\<close>: the status is in the range 200 to 299.\<close>

definition ok :: "nat \<Rightarrow> bool" where
  "ok st = (200 \<le> st \<and> st \<le> 299)"

text \<open>
  The remote side of one attempt: the outcome of the GET that opens the stream and of
  the POST to the session endpoint. \<open>Inl\<close> is a \<^verbatim>\<open>fetch\<close> that throws.
\<close>

record sse_exchange =
  get_response :: "js_error + sse_response"
  post_response :: "js_error + http_response"

text \<open>
  The accepting test on a data line. \<^verbatim>\<open>JSON.parse\<close> is a parameter (\<open>None\<close> when it
  throws). Reading a property of \<^verbatim>\<open>null\<close> throws inside the same \<^verbatim>\<open>try\<close>, so it
  is no acceptance either. An accepted object gets the request's id.
\<close>

definition truthy_prop :: "json \<Rightarrow> string \<Rightarrow> bool" where
  "truthy_prop v name = (case get_prop v name of None \<Rightarrow> False | Some x \<Rightarrow> truthy x)"

definition accept_data :: "(string \<Rightarrow> json option) \<Rightarrow> json \<Rightarrow> string \<Rightarrow> json option" where
  "accept_data JSON_parse request_id dataLine =
     (case JSON_parse dataLine of
        None \<Rightarrow> None
      | Some JNull \<Rightarrow> None
      | Some (JObj kvs) \<Rightarrow>
          if truthy_prop (JObj kvs) ''result'' \<or> truthy_prop (JObj kvs) ''error''
          then Some (JObj (AList.update ''id'' request_id kvs))
          else None
      | Some v \<Rightarrow> None)"

text \<open>
  The \<^verbatim>\<open>for\<close> loop over the complete lines of the buffer. After an
  \<^verbatim>\<open>event: message\<close> line it skips blank lines, looks at the next line, and goes on
  behind that line whatever it was.
\<close>

function scan_lines :: "(string \<Rightarrow> json option) \<Rightarrow> json \<Rightarrow> string list \<Rightarrow> json option" where
  "scan_lines JSON_parse request_id [] = None"
| "scan_lines JSON_parse request_id (l # ls) =
     (if prefix ''event: message'' (trim l) then
        (case dropWhile (\<lambda>x. trim x = []) ls of
           [] \<Rightarrow> None
         | d # rest \<Rightarrow>
             if prefix ''data: '' d then
               (case accept_data JSON_parse request_id (drop 6 d) of
                  Some r \<Rightarrow> Some r
                | None \<Rightarrow> scan_lines JSON_parse request_id rest)
             else scan_lines JSON_parse request_id rest)
      else scan_lines JSON_parse request_id ls)"
  by pat_completeness auto
termination
proof (relation "measure (\<lambda>(p, r, ls). length ls)", goal_cases)
  case 1
  show ?case by simp
next
  case (2 JSON_parse request_id l ls d rest)
  have "length (dropWhile (\<lambda>x. trim x = []) ls) \<le> length ls"
    by (rule length_dropWhile_le)
  with 2 show ?case by simp
next
  case (3 JSON_parse request_id l ls d rest)
  have "length (dropWhile (\<lambda>x. trim x = []) ls) \<le> length ls"
    by (rule length_dropWhile_le)
  with 3 show ?case by simp
next
  case 4
  show ?case by simp
qed

text \<open>The read loop of \<^verbatim>\<open>listenForResponse\<close>, with the buffer of the unfinished line.\<close>

fun listenForResponse ::
  "(string \<Rightarrow> json option) \<Rightarrow> json \<Rightarrow> string \<Rightarrow> read_result list \<Rightarrow> js_error + json" where
  "listenForResponse JSON_parse request_id buffer [] =
     Inl (FigmaClientError ''Response timeout'' ''TIMEOUT'' None)"
| "listenForResponse JSON_parse request_id buffer (TimerFires # reads) =
     Inl (FigmaClientError ''Response timeout'' ''TIMEOUT'' None)"
| "listenForResponse JSON_parse request_id buffer (Done # reads) =
     Inl (FigmaClientError ''SSE stream ended without response'' ''STREAM_ENDED'' None)"
| "listenForResponse JSON_parse request_id buffer (ReadThrows e # reads) = Inl e"
| "listenForResponse JSON_parse request_id buffer (Chunk chunk # reads) =
     (if chunk = [] then listenForResponse JSON_parse request_id buffer reads
      else (let lines = split_lines (buffer @ chunk) in
            case scan_lines JSON_parse request_id (butlast lines) of
              Some r \<Rightarrow> Inr r
            | None \<Rightarrow> listenForResponse JSON_parse request_id (last lines) reads))"

text \<open>The \<^verbatim>\<open>catch\<close> at the end of \<^verbatim>\<open>makeRequestWithSSE\<close>.\<close>

fun includes_fetch :: "string \<Rightarrow> bool" where
  "includes_fetch [] = False"
| "includes_fetch (c # cs) = (prefix ''fetch'' (c # cs) \<or> includes_fetch cs)"

fun is_fetch_TypeError :: "js_error \<Rightarrow> bool" where
  "is_fetch_TypeError (JsTypeError m) = includes_fetch m"
| "is_fetch_TypeError e = False"

definition classify_request_error :: "string \<Rightarrow> js_error \<Rightarrow> js_error" where
  "classify_request_error what e =
     (if instanceof_FigmaClientError e then e
      else if is_fetch_TypeError e then FigmaServerUnavailableError
      else FigmaClientError (what @ message_or_string e)
             (if what = ''Request failed: '' then ''REQUEST_FAILED'' else ''SESSION_REQUEST_FAILED'')
             None)"

text \<open>The body of the \<^verbatim>\<open>try\<close> of \<^verbatim>\<open>makeRequestWithSSE\<close>, step by step.\<close>

definition sse_request_body ::
  "(string \<Rightarrow> json option) \<Rightarrow> json \<Rightarrow> sse_exchange \<Rightarrow> js_error + json" where
  "sse_request_body JSON_parse request_id x =
     (case get_response x of
        Inl e \<Rightarrow> Inl e
      | Inr response \<Rightarrow>
          if \<not> ok (sse_status response) then Inl FigmaServerUnavailableError
          else (case sse_body response of
                  None \<Rightarrow> Inl (JsError ''No response body'')
                | Some (FirstDone, reads) \<Rightarrow> Inl (JsError ''SSE stream ended prematurely'')
                | Some (FirstThrows e, reads) \<Rightarrow> Inl e
                | Some (FirstChunk chunk, reads) \<Rightarrow>
                    (case find_sessionEndpoint chunk of
                       None \<Rightarrow> Inl (JsError ''No session endpoint found'')
                     | Some sessionEndpoint \<Rightarrow>
                         if sessionEndpoint = [] then Inl (JsError ''No session endpoint found'')
                         else (case post_response x of
                                 Inl e \<Rightarrow> Inl e
                               | Inr sessionResponse \<Rightarrow>
                                   if status sessionResponse \<noteq> 202
                                   then Inl (FigmaClientError
                                          (''Unexpected session response: ''
                                             @ string_of_nat (status sessionResponse))
                                          ''UNEXPECTED_RESPONSE''
                                          (Some (int (status sessionResponse))))
                                   else listenForResponse JSON_parse request_id [] reads))))"

definition makeRequestWithSSE ::
  "(string \<Rightarrow> json option) \<Rightarrow> json \<Rightarrow> sse_exchange \<Rightarrow> js_error + json" where
  "makeRequestWithSSE JSON_parse request_id x =
     (case sse_request_body JSON_parse request_id x of
        Inr response \<Rightarrow> Inr response
      | Inl e \<Rightarrow> Inl (classify_request_error ''Request failed: '' e))"

text \<open>
  \<^verbatim>\<open>makeSessionRequest\<close>, the POST of the connection probe. It answers an accepted
  request with a fixed response and otherwise parses the body.
\<close>

definition session_request_body ::
  "(string \<Rightarrow> json option) \<Rightarrow> json \<Rightarrow> js_error + http_response \<Rightarrow> js_error + json" where
  "session_request_body JSON_parse request_id fetched =
     (case fetched of
        Inl e \<Rightarrow> Inl e
      | Inr response \<Rightarrow>
          if \<not> ok (status response) then
            (if status response = 503 then Inl FigmaServerUnavailableError
             else if status response = 401 then Inl FigmaAuthenticationError
             else Inl (FigmaClientError
                    (''HTTP '' @ string_of_nat (status response) @ '': '' @ statusText response)
                    ''HTTP_ERROR'' (Some (int (status response)))))
          else (case text_body response of
                  Inl e \<Rightarrow> Inl e
                | Inr responseText \<Rightarrow>
                    if status response = 202 \<and> responseText = ''Accepted''
                    then Inr (JObj [(''jsonrpc'', JStr ''2.0''), (''id'', request_id),
                            (''result'', JObj [(''tools'',
                               JArr [JObj [(''name'', JStr ''figma_connected'')]])])])
                    else (case JSON_parse responseText of
                            Some d \<Rightarrow> Inr d
                          | None \<Rightarrow> Inl (FigmaClientError
                                 (''Invalid JSON response: '' @ responseText)
                                 ''INVALID_RESPONSE'' None))))"

definition makeSessionRequest ::
  "(string \<Rightarrow> json option) \<Rightarrow> json \<Rightarrow> js_error + http_response \<Rightarrow> js_error + json" where
  "makeSessionRequest JSON_parse request_id fetched =
     (case session_request_body JSON_parse request_id fetched of
        Inr response \<Rightarrow> Inr response
      | Inl e \<Rightarrow> Inl (classify_request_error ''Session request failed: '' e))"

section \<open>Transport: retries\<close>

text \<open>
  \<^verbatim>\<open>makeRequest\<close> runs \<^verbatim>\<open>makeRequestWithSSE\<close> up to \<^verbatim>\<open>retryAttempts\<close> times. The
  remote side of attempt \<open>n\<close> is \<open>exchanges n\<close>. The calls of \<^verbatim>\<open>makeRequestWithSSE\<close>
  and the delays handed to \<^verbatim>\<open>setTimeout\<close> are logged in order. \<^verbatim>\<open>lastError\<close> starts
  undefined (\<open>None\<close>), and that is what \<^verbatim>\<open>throw lastError\<close> throws when the loop
  body never ran.
\<close>

datatype retry_event = Attempt nat | Sleep nat

record request_state =
  requestId :: nat
  lastError :: "js_error option"
  trace :: "retry_event list"

function makeRequest_loop ::
  "(string \<Rightarrow> json option) \<Rightarrow> int \<Rightarrow> (nat \<Rightarrow> sse_exchange) \<Rightarrow> nat \<Rightarrow> request_state
     \<Rightarrow> (js_error option + json) \<times> request_state" where
  "makeRequest_loop JSON_parse retries exchanges attempt st =
     (if int attempt \<le> retries then
        (let st1 = st\<lparr>requestId := requestId st + 1, trace := trace st @ [Attempt attempt]\<rparr>
         in case makeRequestWithSSE JSON_parse (JNum (real (requestId st1))) (exchanges attempt) of
              Inr response \<Rightarrow> (Inr response, st1)
            | Inl error \<Rightarrow>
                (let st2 = st1\<lparr>lastError :=
                              Some (if instanceof_Error error then error
                                    else JsError (error_message error))\<rparr>;
                     st3 = (if int attempt < retries
                            then st2\<lparr>trace := trace st2
                                   @ [Sleep (min (1000 * 2 ^ (attempt - 1)) 5000)]\<rparr>
                            else st2)
                 in makeRequest_loop JSON_parse retries exchanges (attempt + 1) st3))
      else (Inl (lastError st), st))"
  by pat_completeness auto
termination
  by (relation "measure (\<lambda>(p, retries, x, attempt, st). nat (retries + 1 - int attempt))") auto

declare makeRequest_loop.simps [simp del]

definition makeRequest ::
  "(string \<Rightarrow> json option) \<Rightarrow> int \<Rightarrow> (nat \<Rightarrow> sse_exchange) \<Rightarrow> nat
     \<Rightarrow> (js_error option + json) \<times> request_state" where
  "makeRequest JSON_parse retries exchanges rid =
     makeRequest_loop JSON_parse retries exchanges 1
       \<lparr>requestId = rid, lastError = None, trace = []\<rparr>"

text \<open>
  The retry schedule in the words of the specification, to compare the log with:
  attempts \<open>a\<close>, \<open>a + 1\<close>, ... (\<open>k\<close> of them), and between attempt \<open>n\<close> and the
  next one a delay of \<open>min (1000 * 2 ^ (n - 1)) 5000\<close> milliseconds.
\<close>

definition spec_backoff :: "nat \<Rightarrow> nat" where
  "spec_backoff n = min (1000 * 2 ^ (n - 1)) 5000"

fun spec_retry_trace :: "nat \<Rightarrow> nat \<Rightarrow> retry_event list" where
  "spec_retry_trace a 0 = []"
| "spec_retry_trace a (Suc 0) = [Attempt a]"
| "spec_retry_trace a (Suc (Suc k)) =
     Attempt a # Sleep (spec_backoff a) # spec_retry_trace (Suc a) (Suc k)"

definition attempts_of :: "retry_event list \<Rightarrow> nat list" where
  "attempts_of tr = concat (map (\<lambda>e. case e of Attempt n \<Rightarrow> [n] | Sleep d \<Rightarrow> []) tr)"

section \<open>Progressive fallback extractor\<close>

text \<open>
  The extractor talks to three parties: the Figma client, the progress tracker and the
  caller's progress callback.

  \<^item> The client is a record of behaviours. \<^verbatim>\<open>testConnection\<close> is a promise that is
    fulfilled, rejected or never settled. Each extraction call is raced against a
    timer, and the behaviour gives the outcome of that race from the calls made so
    far (the current one last) and the timeout.
  \<^item> The tracker's \<^verbatim>\<open>updateStage\<close> builds the event handed to the callback. Its
    bookkeeping of times, the \<^verbatim>\<open>duration\<close> and \<^verbatim>\<open>partialData\<close> of an event and the
    \<^verbatim>\<open>performance\<close> field of the result depend on the clock only and are left
    out; so is the \<^verbatim>\<open>extractedAt\<close> time stamp.
  \<^item> The callback gets the events delivered before and the new one; it returns
    (\<open>None\<close>) or throws.

  Template literals that interpolate the length of an extracted collection are kept
  as \<open>WithLength prefix collection suffix\<close>.
\<close>

datatype 'a promise = Fulfilled 'a | RejectedWith js_error | Pending

datatype 'a raced = Resolved 'a | Rejected js_error | TimedOut

datatype client_call =
    TestConnection
  | GetVariableDefinitions string "string option"
  | GetCodeConnectMap string "string option"
  | GetCode string string bool bool

record figma_client =
  testConnection :: "bool promise"
  getVariableDefinitions :: "client_call list \<Rightarrow> real \<Rightarrow> json raced"
  getCodeConnectMap :: "client_call list \<Rightarrow> real \<Rightarrow> json raced"
  getCode :: "client_call list \<Rightarrow> real \<Rightarrow> json raced"

datatype progress_message = Literal string | WithLength string json string

record progress_event =
  stage :: string
  percentage :: int
  message :: progress_message

type_synonym callback = "progress_event list \<Rightarrow> progress_event \<Rightarrow> js_error option"

text \<open>
  \<^verbatim>\<open>message || this.getDefaultMessage(stage, percentage)\<close>: an empty message is
  replaced by the tracker's default for the stage, which quotes the percentage as it
  was passed in.
\<close>

definition string_of_int :: "int \<Rightarrow> string" where
  "string_of_int n =
     (if n < 0 then CHR ''-'' # string_of_nat (nat (- n)) else string_of_nat (nat n))"

definition getDefaultMessage :: "string \<Rightarrow> int \<Rightarrow> string" where
  "getDefaultMessage st pct =
     (if pct = 100 then
        (if st = ''variables'' then ''Variables extraction completed''
         else if st = ''components'' then ''Components analysis completed''
         else if st = ''code'' then ''Code generation completed''
         else if st = ''complete'' then ''Extraction completed successfully''
         else st @ '' completed'')
      else
        (if st = ''variables''
         then ''Extracting design variables... ('' @ string_of_int pct @ ''%)''
         else if st = ''components''
         then ''Analyzing components... ('' @ string_of_int pct @ ''%)''
         else if st = ''code''
         then ''Generating React code... ('' @ string_of_int pct @ ''%)''
         else if st = ''complete'' then ''Finalizing extraction...''
         else ''Processing '' @ st @ ''... ('' @ string_of_int pct @ ''%)''))"

definition updateStage :: "string \<Rightarrow> int \<Rightarrow> progress_message \<Rightarrow> progress_event" where
  "updateStage st pct msg =
     \<lparr>stage = st, percentage = max 0 (min 100 pct),
      message = (if msg = Literal [] then Literal (getDefaultMessage st pct) else msg)\<rparr>"

record basic_metadata =
  extractionMethod :: string
  figmaFileId :: string
  figmaNodeId :: "string option"
  complexityDetected :: bool
  recommendedApproach :: string

record figma_result =
  fileId :: string
  nodeId :: "string option"
  url :: string
  code :: json
  components :: json
  variables :: json
  codeConnectMap :: json
  metadata :: "basic_metadata option"

record streaming_result =
  success :: bool
  figmaData :: figma_result
  warnings :: "string list"
  errors :: "string list"

text \<open>
  What the pipeline mutates while it runs: the result under construction, the two
  message arrays, and (as a log) the events handed to the callback and the calls made
  on the client.
\<close>

record ext_state =
  st_result :: figma_result
  st_warnings :: "string list"
  st_errors :: "string list"
  st_events :: "progress_event list"
  st_calls :: "client_call list"

text \<open>
  A step of the pipeline ends normally with a value, throws, or waits forever on a
  promise that never settles; the state is the one reached at that point.
\<close>

datatype 'a completion = Normal 'a | Throws js_error | Hangs

type_synonym 'a step = "'a completion \<times> ext_state"

definition and_then :: "'a step \<Rightarrow> ('a \<Rightarrow> ext_state \<Rightarrow> 'b step) \<Rightarrow> 'b step" where
  "and_then m f =
     (case m of
        (Normal a, s) \<Rightarrow> f a s
      | (Throws e, s) \<Rightarrow> (Throws e, s)
      | (Hangs, s) \<Rightarrow> (Hangs, s))"

text \<open>\<^verbatim>\<open>onProgress(this.progressTracker.updateStage(...))\<close>.\<close>

definition emit :: "callback \<Rightarrow> progress_event \<Rightarrow> ext_state \<Rightarrow> unit step" where
  "emit onProgress ev s =
     (case onProgress (st_events s) ev of
        None \<Rightarrow> (Normal (), s\<lparr>st_events := st_events s @ [ev]\<rparr>)
      | Some e \<Rightarrow> (Throws e, s\<lparr>st_events := st_events s @ [ev]\<rparr>))"

definition push_warning :: "string \<Rightarrow> ext_state \<Rightarrow> ext_state" where
  "push_warning w s = s\<lparr>st_warnings := st_warnings s @ [w]\<rparr>"

definition push_error :: "string \<Rightarrow> ext_state \<Rightarrow> ext_state" where
  "push_error m s = s\<lparr>st_errors := st_errors s @ [m]\<rparr>"

record safe_result =
  sr_success :: bool
  sr_data :: "json option"

definition safe_of_race :: "json raced \<Rightarrow> safe_result" where
  "safe_of_race r =
     (case r of
        Resolved d \<Rightarrow> \<lparr>sr_success = True, sr_data = Some d\<rparr>
      | Rejected e \<Rightarrow> \<lparr>sr_success = False, sr_data = None\<rparr>
      | TimedOut \<Rightarrow> \<lparr>sr_success = False, sr_data = None\<rparr>)"

text \<open>\<^verbatim>\<open>result.data?.name || []\<close> and \<^verbatim>\<open>result.data?.name || null\<close>.\<close>

definition data_prop_or :: "safe_result \<Rightarrow> string \<Rightarrow> json \<Rightarrow> json" where
  "data_prop_or r name d =
     (case sr_data r of
        None \<Rightarrow> d
      | Some v \<Rightarrow> or_else (get_prop v name) d)"

definition safeExtractVariables ::
  "figma_client \<Rightarrow> string \<Rightarrow> string option \<Rightarrow> real \<Rightarrow> ext_state \<Rightarrow> safe_result \<times> ext_state" where
  "safeExtractVariables client u nid timeout s =
     (let cs = st_calls s @ [GetVariableDefinitions u nid]
      in (safe_of_race (getVariableDefinitions client cs timeout), s\<lparr>st_calls := cs\<rparr>))"

definition safeExtractComponents ::
  "figma_client \<Rightarrow> string \<Rightarrow> string option \<Rightarrow> real \<Rightarrow> ext_state \<Rightarrow> safe_result \<times> ext_state" where
  "safeExtractComponents client u nid timeout s =
     (let cs = st_calls s @ [GetCodeConnectMap u nid]
      in (safe_of_race (getCodeConnectMap client cs timeout), s\<lparr>st_calls := cs\<rparr>))"

text \<open>\<^verbatim>\<open>input.options?.includeVariants ?? true\<close>.\<close>

definition option_flag :: "streaming_input \<Rightarrow> (extraction_options \<Rightarrow> bool option) \<Rightarrow> bool" where
  "option_flag i field =
     (case input_options i of
        None \<Rightarrow> True
      | Some opts \<Rightarrow> (case field opts of None \<Rightarrow> True | Some b \<Rightarrow> b))"

definition safeExtractCode ::
  "figma_client \<Rightarrow> streaming_input \<Rightarrow> string \<Rightarrow> string \<Rightarrow> real \<Rightarrow> ext_state
     \<Rightarrow> safe_result \<times> ext_state" where
  "safeExtractCode client i u nid timeout s =
     (let cs = st_calls s
                 @ [GetCode u nid (option_flag i includeVariants) (option_flag i includeTokens)]
      in (safe_of_race (getCode client cs timeout), s\<lparr>st_calls := cs\<rparr>))"

text \<open>Truthiness of \<^verbatim>\<open>nodeId\<close>: defined and not the empty string.\<close>

definition truthy_string :: "string option \<Rightarrow> bool" where
  "truthy_string v = (case v of None \<Rightarrow> False | Some x \<Rightarrow> x \<noteq> [])"

definition set_variables :: "json \<Rightarrow> ext_state \<Rightarrow> ext_state" where
  "set_variables v s = s\<lparr>st_result := (st_result s)\<lparr>variables := v\<rparr>\<rparr>"

definition set_codeConnectMap :: "json \<Rightarrow> ext_state \<Rightarrow> ext_state" where
  "set_codeConnectMap v s = s\<lparr>st_result := (st_result s)\<lparr>codeConnectMap := v\<rparr>\<rparr>"

definition set_code :: "json \<Rightarrow> json \<Rightarrow> ext_state \<Rightarrow> ext_state" where
  "set_code c comps s = s\<lparr>st_result := (st_result s)\<lparr>code := c, components := comps\<rparr>\<rparr>"

text \<open>Level 1, phase 3: code generation, inside the \<^verbatim>\<open>try\<close> of level 1.\<close>

definition optimal_code_phase ::
  "figma_client \<Rightarrow> callback \<Rightarrow> streaming_input \<Rightarrow> string \<Rightarrow> string option \<Rightarrow> stage_timeouts
     \<Rightarrow> bool \<Rightarrow> bool \<Rightarrow> ext_state \<Rightarrow> unit step" where
  "optimal_code_phase client onProgress i u nid timeouts shouldIncludeCode isComplexLayout s =
     (if shouldIncludeCode \<and> truthy_string nid then
        and_then
          (if isComplexLayout then
             and_then
               (emit onProgress (updateStage ''code'' 0 (Literal
                  ''Complex layout - attempting code generation with aggressive timeout'')) s)
               (\<lambda>_ s. (Normal (), push_warning
                  ''Complex layout detected. Code generation may timeout gracefully.'' s))
           else emit onProgress (updateStage ''code'' 0 (Literal ''Generating React code...'')) s)
          (\<lambda>_ s.
             (let (codeResult, s) = safeExtractCode client i u (the nid) (code_timeout timeouts) s
              in if sr_success codeResult then
                   emit onProgress
                     (updateStage ''code'' 100 (Literal ''Code generation completed''))
                     (set_code (data_prop_or codeResult ''code'' JNull)
                               (data_prop_or codeResult ''components'' (JArr [])) s)
                 else
                   emit onProgress
                     (updateStage ''code'' 50 (Literal ''Code generation timed out gracefully''))
                     (push_warning
                        ''Code generation timed out - design data still fully available'' s)))
      else emit onProgress (updateStage ''code'' 100 (Literal ''Code generation skipped'')) s)"

text \<open>Level 1: the body of the \<^verbatim>\<open>try\<close>, then the function with its \<^verbatim>\<open>catch\<close>.\<close>

definition tryOptimalExtraction_body ::
  "figma_client \<Rightarrow> callback \<Rightarrow> streaming_input \<Rightarrow> string \<Rightarrow> string option \<Rightarrow> stage_timeouts
     \<Rightarrow> bool \<Rightarrow> bool \<Rightarrow> ext_state \<Rightarrow> bool step" where
  "tryOptimalExtraction_body client onProgress i u nid timeouts shouldIncludeCode isComplexLayout s =
     and_then
       (emit onProgress
          (updateStage ''variables'' 0 (Literal ''Extracting design variables...'')) s)
       (\<lambda>_ s.
          (let (variablesResult, s) =
                 safeExtractVariables client u nid (variables_timeout timeouts) s
           in if \<not> sr_success variablesResult then (Normal False, s)
              else
                (let v = data_prop_or variablesResult ''variables'' (JArr []) in
                 and_then
                   (emit onProgress
                      (updateStage ''variables'' 100 (WithLength ''Variables: '' v '' found''))
                      (set_variables v s))
                   (\<lambda>_ s.
                      and_then
                        (emit onProgress
                           (updateStage ''components'' 0 (Literal ''Analyzing components...'')) s)
                        (\<lambda>_ s.
                           (let (componentsResult, s) =
                                  safeExtractComponents client u nid
                                    (components_timeout timeouts) s
                            in and_then
                                 (if sr_success componentsResult then
                                    (let m = data_prop_or componentsResult ''mappings'' (JArr [])
                                     in emit onProgress
                                          (updateStage ''components'' 100
                                             (WithLength ''Components: '' m '' mappings''))
                                          (set_codeConnectMap m s))
                                  else (Normal (), push_warning
                                     ''Component mapping failed, but variables are available'' s))
                                 (\<lambda>_ s.
                                    and_then
                                      (optimal_code_phase client onProgress i u nid timeouts
                                         shouldIncludeCode isComplexLayout s)
                                      (\<lambda>_ s. (Normal True, s)))))))))"

text \<open>
  The \<^verbatim>\<open>catch\<close> of a level: the error is recorded under the level's name and the
  level reports failure. A wait that never ends stays one.
\<close>

definition level_catch :: "string \<Rightarrow> bool step \<Rightarrow> bool step" where
  "level_catch name r =
     (case r of
        (Throws e, s) \<Rightarrow>
          (Normal False, push_error (name @ '' extraction failed: '' @ message_or_string e) s)
      | other \<Rightarrow> other)"

definition tryOptimalExtraction ::
  "figma_client \<Rightarrow> callback \<Rightarrow> streaming_input \<Rightarrow> string \<Rightarrow> string option \<Rightarrow> stage_timeouts
     \<Rightarrow> bool \<Rightarrow> bool \<Rightarrow> ext_state \<Rightarrow> bool step" where
  "tryOptimalExtraction client onProgress i u nid timeouts shouldIncludeCode isComplexLayout s =
     level_catch ''Optimal''
       (tryOptimalExtraction_body client onProgress i u nid timeouts
          shouldIncludeCode isComplexLayout s)"

text \<open>Level 2.\<close>

definition tryBalancedExtraction_body ::
  "figma_client \<Rightarrow> callback \<Rightarrow> string \<Rightarrow> string option \<Rightarrow> ext_state \<Rightarrow> bool step" where
  "tryBalancedExtraction_body client onProgress u nid s =
     and_then
       (emit onProgress
          (updateStage ''variables'' 0 (Literal ''Fast variables extraction...'')) s)
       (\<lambda>_ s.
          (let (variablesResult, s) = safeExtractVariables client u nid 3000 s
           in if sr_success variablesResult then
                (let v = data_prop_or variablesResult ''variables'' (JArr []) in
                 and_then
                   (emit onProgress
                      (updateStage ''variables'' 100 (WithLength ''Variables: '' v '' found''))
                      (set_variables v s))
                   (\<lambda>_ s.
                      and_then
                        (emit onProgress
                           (updateStage ''components'' 0
                              (Literal ''Fast components extraction...'')) s)
                        (\<lambda>_ s.
                           (let (componentsResult, s) =
                                  safeExtractComponents client u nid 5000 s
                            in and_then
                                 (if sr_success componentsResult then
                                    (let m = data_prop_or componentsResult ''mappings'' (JArr [])
                                     in emit onProgress
                                          (updateStage ''components'' 100
                                             (WithLength ''Components: '' m '' mappings''))
                                          (set_codeConnectMap m s))
                                  else (Normal (), s))
                                 (\<lambda>_ s.
                                    and_then
                                      (emit onProgress
                                         (updateStage ''code'' 100 (Literal
                                            ''Code generation skipped for performance'')) s)
                                      (\<lambda>_ s. (Normal True, s)))))))
              else (Normal False, s)))"

definition tryBalancedExtraction ::
  "figma_client \<Rightarrow> callback \<Rightarrow> string \<Rightarrow> string option \<Rightarrow> ext_state \<Rightarrow> bool step" where
  "tryBalancedExtraction client onProgress u nid s =
     level_catch ''Balanced'' (tryBalancedExtraction_body client onProgress u nid s)"

text \<open>Level 3.\<close>

definition tryMinimalExtraction_body ::
  "figma_client \<Rightarrow> callback \<Rightarrow> string \<Rightarrow> string option \<Rightarrow> ext_state \<Rightarrow> bool step" where
  "tryMinimalExtraction_body client onProgress u nid s =
     and_then
       (emit onProgress
          (updateStage ''variables'' 0 (Literal ''Minimal variables extraction...'')) s)
       (\<lambda>_ s.
          (let (variablesResult, s) = safeExtractVariables client u nid 2000 s
           in if sr_success variablesResult then
                (let v = data_prop_or variablesResult ''variables'' (JArr []) in
                 and_then
                   (emit onProgress
                      (updateStage ''variables'' 100 (WithLength ''Variables: '' v '' found''))
                      (set_variables v s))
                   (\<lambda>_ s.
                      and_then
                        (emit onProgress
                           (updateStage ''components'' 100
                              (Literal ''Components skipped for performance'')) s)
                        (\<lambda>_ s.
                           and_then
                             (emit onProgress
                                (updateStage ''code'' 100
                                   (Literal ''Code generation skipped for performance'')) s)
                             (\<lambda>_ s. (Normal True, s)))))
              else (Normal False, s)))"

definition tryMinimalExtraction ::
  "figma_client \<Rightarrow> callback \<Rightarrow> string \<Rightarrow> string option \<Rightarrow> ext_state \<Rightarrow> bool step" where
  "tryMinimalExtraction client onProgress u nid s =
     level_catch ''Minimal'' (tryMinimalExtraction_body client onProgress u nid s)"

text \<open>Level 4. It has no \<^verbatim>\<open>try\<close> of its own.\<close>

definition executeEmergencyFallback ::
  "callback \<Rightarrow> string \<Rightarrow> string option \<Rightarrow> ext_state \<Rightarrow> unit step" where
  "executeEmergencyFallback onProgress u nid s =
     (case parseFigmaUrl u of
        Inl e \<Rightarrow> (Throws e, s)
      | Inr (urlFileId, urlNodeId) \<Rightarrow>
          (let s1 = s\<lparr>st_result := (st_result s)\<lparr>variables := JArr [], components := JArr [],
                          codeConnectMap := JArr [], code := JNull\<rparr>\<rparr>;
               basicMetadata =
                 \<lparr>extractionMethod = ''emergency_fallback'',
                  figmaFileId = urlFileId,
                  figmaNodeId = (if truthy_string nid then nid else urlNodeId),
                  complexityDetected = detectComplexLayout (Some u),
                  recommendedApproach =
                    ''Consider using IDE integration with Figma MCP for better results''\<rparr>;
               s2 = push_warning ''Emergency fallback active - Figma MCP server may be overloaded or design is extremely complex'' s1;
               s3 = push_warning ''Basic file information extracted from URL'' s2;
               s4 = push_warning ''For better results: 1) Try smaller frame selections, 2) Use IDE integration, 3) Retry later'' s3;
               s5 = s4\<lparr>st_result := (st_result s4)\<lparr>metadata := Some basicMetadata\<rparr>\<rparr>
           in and_then
                (emit onProgress (updateStage ''variables'' 100
                   (Literal ''Emergency fallback: Basic info extracted'')) s5)
                (\<lambda>_ s.
                   and_then
                     (emit onProgress (updateStage ''components'' 100
                        (Literal ''Emergency fallback: File metadata available'')) s)
                     (\<lambda>_ s.
                        emit onProgress (updateStage ''code'' 100
                          (Literal ''Emergency fallback: URL data parsed'')) s))))"

text \<open>The ladder. \<^verbatim>\<open>input.options?.includeCode !== false\<close> decides about the code.\<close>

definition shouldIncludeCode_of :: "streaming_input \<Rightarrow> bool" where
  "shouldIncludeCode_of i =
     (case input_options i of
        None \<Rightarrow> True
      | Some opts \<Rightarrow> includeCode opts \<noteq> Some False)"

definition executeProgressiveFallbackExtraction ::
  "figma_client \<Rightarrow> callback \<Rightarrow> streaming_input \<Rightarrow> string \<Rightarrow> string option \<Rightarrow> bool
     \<Rightarrow> ext_state \<Rightarrow> unit step" where
  "executeProgressiveFallbackExtraction client onProgress i u nid isComplexLayout s =
     (let timeouts = getStageTimeouts i;
          shouldIncludeCode = shouldIncludeCode_of i
      in and_then
           (tryOptimalExtraction client onProgress i u nid timeouts
              shouldIncludeCode isComplexLayout s)
           (\<lambda>done1 s.
              if done1 then (Normal (), s)
              else
                and_then
                  (tryBalancedExtraction client onProgress u nid
                     (push_warning ''Falling back to essential data extraction (variables + components only)'' s))
                  (\<lambda>done2 s.
                     if done2 then (Normal (), s)
                     else
                       and_then
                         (tryMinimalExtraction client onProgress u nid
                            (push_warning ''Falling back to minimal extraction (variables only)'' s))
                         (\<lambda>done3 s.
                            if done3 then (Normal (), s)
                            else executeEmergencyFallback onProgress u nid
                                   (push_warning ''Using emergency fallback - providing basic file information'' s)))))"

definition executeExtractionStages ::
  "figma_client \<Rightarrow> callback \<Rightarrow> streaming_input \<Rightarrow> string \<Rightarrow> ext_state \<Rightarrow> unit step" where
  "executeExtractionStages client onProgress i u s =
     (let nid = nodeId (st_result s);
          isComplexLayout = detectComplexLayout (input_url i)
      in and_then
           (executeProgressiveFallbackExtraction client onProgress i u nid isComplexLayout s)
           (\<lambda>_ s. emit onProgress
                     (updateStage ''complete'' 100 (Literal ''Extraction completed'')) s))"

text \<open>The result built from pre-extracted data.\<close>

definition array_or_empty :: "json list option \<Rightarrow> json" where
  "array_or_empty v = (case v of None \<Rightarrow> JArr [] | Some xs \<Rightarrow> JArr xs)"

definition from_figmaData :: "figma_data \<Rightarrow> figma_result" where
  "from_figmaData d =
     \<lparr>fileId = pre_fileId d,
      nodeId = pre_nodeId d,
      url = pre_url d,
      code = (case pre_code d of
                None \<Rightarrow> JNull
              | Some c \<Rightarrow> if c = [] then JNull else JStr c),
      components = array_or_empty (pre_components d),
      variables = array_or_empty (pre_variables d),
      codeConnectMap = array_or_empty (pre_codeConnectMap d),
      metadata = None\<rparr>"

text \<open>The body of the \<^verbatim>\<open>try\<close> of \<^verbatim>\<open>extractWithProgress\<close>.\<close>

definition pipeline_body ::
  "figma_client \<Rightarrow> callback \<Rightarrow> streaming_input \<Rightarrow> ext_state \<Rightarrow> unit step" where
  "pipeline_body client onProgress i s =
     (case input_figmaData i of
        Some (FigmaData d) \<Rightarrow>
          and_then
            (emit onProgress
               (updateStage ''complete'' 100 (Literal ''Using pre-extracted data'')) s)
            (\<lambda>_ s. (Normal (), s\<lparr>st_result := from_figmaData d\<rparr>))
      | other \<Rightarrow>
          (if \<not> truthy_string (input_url i)
           then (Throws (JsError ''Either figmaData or url must be provided''), s)
           else
             (let u = the (input_url i);
                  s1 = s\<lparr>st_calls := st_calls s @ [TestConnection]\<rparr>
              in case testConnection client of
                   Pending \<Rightarrow> (Hangs, s1)
                 | RejectedWith e \<Rightarrow> (Throws e, s1)
                 | Fulfilled isConnected \<Rightarrow>
                     if \<not> isConnected then (Throws FigmaServerUnavailableError, s1)
                     else
                       (case parseFigmaUrl u of
                          Inl e \<Rightarrow> (Throws e, s1)
                        | Inr (fid, nid) \<Rightarrow>
                            executeExtractionStages client onProgress i u
                              (s1\<lparr>st_result :=
                                    (st_result s1)\<lparr>fileId := fid, nodeId := nid, url := u\<rparr>\<rparr>)))))"

definition buildSuccessResult :: "ext_state \<Rightarrow> streaming_result" where
  "buildSuccessResult s =
     \<lparr>success = True, figmaData = st_result s, warnings = st_warnings s, errors = st_errors s\<rparr>"

definition buildErrorResult :: "ext_state \<Rightarrow> streaming_result" where
  "buildErrorResult s =
     \<lparr>success = False, figmaData = st_result s, warnings = st_warnings s, errors = st_errors s\<rparr>"

definition initial_state :: "streaming_input \<Rightarrow> ext_state" where
  "initial_state i =
     \<lparr>st_result =
        \<lparr>fileId = [], nodeId = None,
         url = (case input_url i of None \<Rightarrow> [] | Some u \<Rightarrow> u),
         code = JNull, components = JArr [], variables = JArr [], codeConnectMap = JArr [],
         metadata = None\<rparr>,
      st_warnings = [], st_errors = [], st_events = [], st_calls = []\<rparr>"

text \<open>
  \<^verbatim>\<open>extractWithProgress\<close>: how the returned promise settles, with the events
  delivered and the client calls made.
\<close>

record extraction_run =
  settled :: "streaming_result promise"
  progress :: "progress_event list"
  client_calls :: "client_call list"

definition extractWithProgress ::
  "figma_client \<Rightarrow> callback \<Rightarrow> streaming_input \<Rightarrow> extraction_run" where
  "extractWithProgress client onProgress i =
     (case pipeline_body client onProgress i (initial_state i) of
        (Normal _, s) \<Rightarrow>
          \<lparr>settled = Fulfilled (buildSuccessResult s),
           progress = st_events s, client_calls = st_calls s\<rparr>
      | (Hangs, s) \<Rightarrow>
          \<lparr>settled = Pending, progress = st_events s, client_calls = st_calls s\<rparr>
      | (Throws error, s) \<Rightarrow>
          (let errorMessage = message_or_string error;
               s1 = push_error errorMessage s
           in case emit onProgress
                     (updateStage ''complete'' 0
                        (Literal (''Extraction failed: '' @ errorMessage))) s1 of
                (Normal _, s2) \<Rightarrow>
                  \<lparr>settled = Fulfilled (buildErrorResult s2),
                   progress = st_events s2, client_calls = st_calls s2\<rparr>
              | (Throws e2, s2) \<Rightarrow>
                  \<lparr>settled = RejectedWith e2,
                   progress = st_events s2, client_calls = st_calls s2\<rparr>
              | (Hangs, s2) \<Rightarrow>
                  \<lparr>settled = Pending, progress = st_events s2, client_calls = st_calls s2\<rparr>))"

text \<open>The steps that cannot wait forever.\<close>

definition no_hang :: "'a step \<Rightarrow> bool" where
  "no_hang m = (fst m \<noteq> Hangs)"

section \<open>Sample environments\<close>

text \<open>
  A remote side that hands out a session endpoint and answers the POST with 503.
\<close>

definition unavailable_exchange :: sse_exchange where
  "unavailable_exchange =
     \<lparr>get_response = Inr \<lparr>sse_status = 200,
          sse_body = Some
            (FirstChunk ''event: endpoint\<newline>data: /messages?sessionId=s1\<newline>\<newline>'', [])\<rparr>,
      post_response = Inr \<lparr>status = 503, statusText = ''Service Unavailable'',
          text_body = Inr []\<rparr>\<rparr>"

text \<open>The same remote side answering the POST with 401.\<close>

definition unauthorized_exchange :: sse_exchange where
  "unauthorized_exchange =
     unavailable_exchange\<lparr>post_response :=
        Inr \<lparr>status = 401, statusText = ''Unauthorized'', text_body = Inr []\<rparr>\<rparr>"

text \<open>\<^verbatim>\<open>JSON.parse\<close> on the data lines used below; every other text is rejected.\<close>

definition sample_JSON_parse :: "string \<Rightarrow> json option" where
  \<open>sample_JSON_parse s =
     (if s = ''{"jsonrpc":"2.0","id":41,"result":{"content":[]}}''
      then Some (JObj [(''jsonrpc'', JStr ''2.0''), (''id'', JNum 41),
                       (''result'', JObj [(''content'', JArr [])])])
      else if s = ''{"jsonrpc":"2.0","id":42,"result":{"content":["second"]}}''
      then Some (JObj [(''jsonrpc'', JStr ''2.0''), (''id'', JNum 42),
                       (''result'', JObj [(''content'', JArr [JStr ''second''])])])
      else if s = ''{"jsonrpc":"2.0","id":41,"result":0}''
      then Some (JObj [(''jsonrpc'', JStr ''2.0''), (''id'', JNum 41), (''result'', JNum 0)])
      else None)\<close>

text \<open>
  Callbacks: one that always returns, and one that throws on every event that reports
  100 percent.
\<close>

definition quiet_callback :: callback where
  "quiet_callback = (\<lambda>h ev. None)"

definition picky_callback :: callback where
  "picky_callback =
     (\<lambda>h ev. if percentage ev = 100 then Some (JsError ''observer failed'') else None)"

text \<open>A callback that throws on every event.\<close>

definition throwing_callback :: callback where
  "throwing_callback = (\<lambda>h ev. Some (JsError ''observer failed''))"

text \<open>
  Clients: one whose probe succeeds while every extraction call loses against its
  timer or rejects, and one whose probe reports that the server is not there.
\<close>

definition failing_client :: figma_client where
  "failing_client =
     \<lparr>testConnection = Fulfilled True,
      getVariableDefinitions = (\<lambda>cs t. TimedOut),
      getCodeConnectMap =
        (\<lambda>cs t. Rejected (FigmaClientError ''Response timeout'' ''TIMEOUT'' None)),
      getCode = (\<lambda>cs t. TimedOut)\<rparr>"

definition unreachable_client :: figma_client where
  "unreachable_client = failing_client\<lparr>testConnection := Fulfilled False\<rparr>"

definition url_input :: "string \<Rightarrow> streaming_input" where
  "url_input u = \<lparr>input_url = Some u, input_figmaData = None, input_options = None\<rparr>"



section \<open>Properties of the cache\<close>

lemma setCache_entry:
  "setCache c k d s t k = Some \<lparr>data = d, timestamp = s, ttl = t\<rparr>"
  by (simp add: setCache_def)

lemma setCache_other: "k' \<noteq> k \<Longrightarrow> setCache c k d s t k' = c k'"
  by (simp add: setCache_def)

lemma getFromCache_other: "k' \<noteq> k \<Longrightarrow> snd (getFromCache c k now) k' = c k'"
  by (simp add: getFromCache_def split: option.splits)

lemma getFromCache_live:
  assumes "c k = Some e" and "now - timestamp e \<le> ttl e"
  shows "getFromCache c k now = (Some (data e), c)"
  using assms by (simp add: getFromCache_def)

lemma getFromCache_expired:
  assumes "c k = Some e" and "timestamp e + ttl e < now"
  shows "getFromCache c k now = (None, c(k := None))"
  using assms by (simp add: getFromCache_def)

lemma repeated_gets_keep_entry:
  assumes "\<forall>now \<in> set nows. now - storedAt \<le> t"
  shows "foldl (\<lambda>c now. snd (getFromCache c k now)) (setCache c0 k d storedAt t) nows
           = setCache c0 k d storedAt t"
  using assms
  by (induction nows) (simp_all add: getFromCache_live[OF setCache_entry])

text \<open>
  Claim C5. After \<open>setCache\<close> stored \<open>d\<close> under \<open>k\<close> at time \<open>storedAt\<close> with
  lifetime \<open>t\<close>, a read at a time \<open>now\<close> with \<open>now - storedAt \<le> t\<close> returns exactly
  \<open>d\<close> and leaves the cache as it was (so every further such read sees the same entry);
  a read strictly after \<open>storedAt + t\<close> returns the miss and the cache it leaves
  behind is the old one with \<open>k\<close> removed. Nothing but a read of \<open>k\<close> removes it:
  writing or reading another key leaves the entry of \<open>k\<close> in place.
\<close>

theorem cache_ttl_visibility:
  "(now - storedAt \<le> t \<longrightarrow>
      getFromCache (setCache c k d storedAt t) k now = (Some d, setCache c k d storedAt t))
   \<and> (storedAt + t < now \<longrightarrow>
      getFromCache (setCache c k d storedAt t) k now = (None, (setCache c k d storedAt t)(k := None)))
   \<and> (k' \<noteq> k \<longrightarrow>
      snd (getFromCache (setCache c k d storedAt t) k' now) k = setCache c k d storedAt t k
      \<and> setCache (setCache c k d storedAt t) k' d' now t' k = setCache c k d storedAt t k)"
  by (simp add: getFromCache_def setCache_def split: option.splits)

theorem cache_ttl_visibility_witness:
  "getFromCache (setCache Map.empty ''getVariables:u:n'' (7::nat) 1000 300000)
       ''getVariables:u:n'' 301000
     = (Some 7, setCache Map.empty ''getVariables:u:n'' 7 1000 300000)
   \<and> fst (getFromCache (setCache Map.empty ''getVariables:u:n'' (7::nat) 1000 300000)
       ''getVariables:u:n'' 301001) = None
   \<and> snd (getFromCache (setCache Map.empty ''getVariables:u:n'' (7::nat) 1000 300000)
       ''getCode:u'' 999999) ''getVariables:u:n''
     = Some \<lparr>data = 7, timestamp = 1000, ttl = 300000\<rparr>"
  using cache_ttl_visibility [where now = 301000 and storedAt = 1000 and t = 300000
      and c = "Map.empty :: nat cache" and k = "''getVariables:u:n''" and d = 7]
    cache_ttl_visibility [where now = 301001 and storedAt = 1000 and t = 300000
      and c = "Map.empty :: nat cache" and k = "''getVariables:u:n''" and d = 7]
    cache_ttl_visibility [where now = 999999 and storedAt = 1000 and t = 300000
      and c = "Map.empty :: nat cache" and k = "''getVariables:u:n''" and d = 7
      and k' = "''getCode:u''"]
  by (simp add: setCache_def)

section \<open>Properties of the progress tracker\<close>

text \<open>
  Claim C9. The efficiency score is 100, minus (capped at 30) the seconds by which the
  total duration exceeds 15 seconds, minus 20 when a timeout occurred, minus 5 for each
  retry, plus 2 for each cache hit, clamped to the interval from 0 to 100. A 20-second
  run with a timeout and neither retries nor cache hits scores 75.
\<close>

theorem efficiency_score_formula:
  "getEfficiencyScore now t =
     max 0 (min 100
       (100 - min 30 (max 0 (real_of_int (now - startTime t - 15000) / 1000))
            - (if timeoutOccurred t then 20 else 0)
            - 5 * real (retryAttempts t)
            + 2 * real (cacheHits t)))
   \<and> (now - startTime t = 20000 \<and> timeoutOccurred t \<and> retryAttempts t = 0 \<and> cacheHits t = 0
        \<longrightarrow> getEfficiencyScore now t = 75)"
proof -
  define over where "over = real_of_int (now - startTime t - 15000) / 1000"
  have penalty: "(if now - startTime t > 15000 then (100::real) - min 30 over else 100)
                 = 100 - min 30 (max 0 over)"
  proof (cases "now - startTime t > 15000")
    case True
    then have "0 \<le> over" by (simp add: over_def)
    then show ?thesis using True by (simp add: max_def)
  next
    case False
    then have "over \<le> 0" by (simp add: over_def)
    then show ?thesis using False by (simp add: max_def)
  qed
  have formula: "getEfficiencyScore now t =
     max 0 (min 100 (100 - min 30 (max 0 over) - (if timeoutOccurred t then 20 else 0)
            - 5 * real (retryAttempts t) + 2 * real (cacheHits t)))"
    unfolding getEfficiencyScore_def getPerformanceMetrics_def Let_def
    using penalty by (simp add: over_def algebra_simps)
  have twenty: "getEfficiencyScore now t = 75"
    if "now - startTime t = 20000" "timeoutOccurred t" "retryAttempts t = 0" "cacheHits t = 0"
    unfolding formula over_def using that by simp
  show ?thesis using formula twenty unfolding over_def by blast
qed

theorem efficiency_score_formula_witness:
  "getEfficiencyScore 21000 (recordTimeout ''code'' (start 1000)) = 75"
  using efficiency_score_formula [of 21000 "recordTimeout ''code'' (start 1000)"]
  by (simp add: recordTimeout_def start_def)

section \<open>Properties of the complexity heuristic\<close>

text \<open>
  The two URLs of the scenario are classified as expected, and between a URL that is
  classified complex and one that is not, for the same \<open>maxWaitTime\<close> from 5000 to
  60000, each of the three stage timeouts is strictly smaller for the complex one.
\<close>

lemma node_1311_9692_complex:
  "detectComplexLayout (Some
     ''https://www.figma.com/design/5h7RH37bjkXERjpF5dhtFX/Compasso?node-id=1311-9692&t=yYSTaSy5g7qI4B5A-11'')"
  by code_simp

lemma node_12_34_simple:
  "\<not> detectComplexLayout (Some
     ''https://www.figma.com/design/5h7RH37bjkXERjpF5dhtFX/Compasso?node-id=12-34'')"
  by code_simp

lemma complex_timeouts_less:
  assumes "detectComplexLayout (input_url c)" and "\<not> detectComplexLayout (input_url s)"
    and "input_options c = Some oc" and "maxWaitTime oc = Some m"
    and "input_options s = Some os" and "maxWaitTime os = Some m"
    and "5000 \<le> m" and "m \<le> 60000"
  shows "variables_timeout (getStageTimeouts c) < variables_timeout (getStageTimeouts s)"
    and "components_timeout (getStageTimeouts c) < components_timeout (getStageTimeouts s)"
    and "code_timeout (getStageTimeouts c) < code_timeout (getStageTimeouts s)"
  using assms
  by (simp_all add: getStageTimeouts_def maxWaitTime_of_def DEFAULT_STAGE_TIMEOUTS_def min_def)

text \<open>
  Claim C8, evaluated. The claim has every URL whose node-id contains four digits in a
  row classified complex and given timeouts strictly below those of a simple node-id.
  In the URL below the parameter \<^verbatim>\<open>starting-point-node-id\<close> comes before
  \<^verbatim>\<open>node-id\<close>. \<open>parseFigmaUrl\<close>, whose pattern asks for \<^verbatim>\<open>?\<close> or \<^verbatim>\<open>&\<close> in front of
  the name, finds the node-id 1311-9692, which has four digits in a row. The pattern
  of \<open>detectComplexLayout\<close> asks for nothing in front of the name: it captures the
  value of the other parameter, and the URL is not classified complex. For a
  \<open>maxWaitTime\<close> of 15000 its stage timeouts are 4500, 9000 and 15000, the very
  timeouts of the URL with the simple node-id 12-34, not smaller ones.
\<close>

theorem foreign_parameter_hides_node_id:
  "parseFigmaUrl
     ''https://www.figma.com/design/5h7RH37bjkXERjpF5dhtFX/Compasso?starting-point-node-id=1%3A2&node-id=1311-9692''
     = Inr (''5h7RH37bjkXERjpF5dhtFX'', Some ''1311-9692'')
   \<and> hasHighNumbers ''1311-9692''
   \<and> match_node_id
     ''https://www.figma.com/design/5h7RH37bjkXERjpF5dhtFX/Compasso?starting-point-node-id=1%3A2&node-id=1311-9692''
     = Some ''1%3A2''
   \<and> \<not> detectComplexLayout (Some
     ''https://www.figma.com/design/5h7RH37bjkXERjpF5dhtFX/Compasso?starting-point-node-id=1%3A2&node-id=1311-9692'')
   \<and> getStageTimeouts
       \<lparr>input_url = Some ''https://www.figma.com/design/5h7RH37bjkXERjpF5dhtFX/Compasso?starting-point-node-id=1%3A2&node-id=1311-9692'',
        input_figmaData = None,
        input_options = Some \<lparr>includeVariants = None, includeTokens = None,
                               includeCode = None, maxWaitTime = Some 15000\<rparr>\<rparr>
     = \<lparr>variables_timeout = 4500, components_timeout = 9000, code_timeout = 15000\<rparr>
   \<and> getStageTimeouts
       \<lparr>input_url = Some ''https://www.figma.com/design/5h7RH37bjkXERjpF5dhtFX/Compasso?node-id=12-34'',
        input_figmaData = None,
        input_options = Some \<lparr>includeVariants = None, includeTokens = None,
                               includeCode = None, maxWaitTime = Some 15000\<rparr>\<rparr>
     = \<lparr>variables_timeout = 4500, components_timeout = 9000, code_timeout = 15000\<rparr>"
  by code_simp

section \<open>Properties of the transport: dispatch\<close>

lemma sse_error_is_FigmaClientError:
  "makeRequestWithSSE P rid x = Inl e \<Longrightarrow> instanceof_FigmaClientError e"
  by (auto simp: makeRequestWithSSE_def classify_request_error_def split: sum.splits if_splits)

lemma FigmaClientError_is_Error: "instanceof_FigmaClientError e \<Longrightarrow> instanceof_Error e"
  by (cases e) auto

text \<open>
  Whatever status other than 202 the POST of \<^verbatim>\<open>makeRequestWithSSE\<close> gets, the error
  is the generic one with the status attached.
\<close>

lemma post_status_not_202:
  assumes "get_response x = Inr response" and "ok (sse_status response)"
    and "sse_body response = Some (FirstChunk chunk, reads)"
    and "find_sessionEndpoint chunk = Some sessionEndpoint" and "sessionEndpoint \<noteq> []"
    and "post_response x = Inr sessionResponse" and "status sessionResponse \<noteq> 202"
  shows "makeRequestWithSSE P rid x =
     Inl (FigmaClientError
            (''Unexpected session response: '' @ string_of_nat (status sessionResponse))
            ''UNEXPECTED_RESPONSE'' (Some (int (status sessionResponse))))"
  using assms
  by (simp add: makeRequestWithSSE_def sse_request_body_def classify_request_error_def)

text \<open>The POST of the connection probe does tell the statuses apart.\<close>

lemma session_request_classifies:
  assumes "\<not> ok (status response)"
  shows "makeSessionRequest P rid (Inr response) =
     Inl (if status response = 503 then FigmaServerUnavailableError
          else if status response = 401 then FigmaAuthenticationError
          else FigmaClientError
                 (''HTTP '' @ string_of_nat (status response) @ '': '' @ statusText response)
                 ''HTTP_ERROR'' (Some (int (status response))))"
  using assms
  by (simp add: makeSessionRequest_def session_request_body_def classify_request_error_def)

lemma unavailable_fails:
  "makeRequestWithSSE P rid unavailable_exchange
     = Inl (FigmaClientError ''Unexpected session response: 503'' ''UNEXPECTED_RESPONSE'' (Some 503))"
  by (simp add: makeRequestWithSSE_def sse_request_body_def unavailable_exchange_def ok_def
      find_sessionEndpoint_def classify_request_error_def string_of_nat.simps)

text \<open>
  Claim C6, evaluated. The claim has a 503 answer to the POST raise the
  server-unavailable error and a 401 the authentication error. In a transport call the
  session got its endpoint and the POST is answered with 503: \<^verbatim>\<open>makeRequestWithSSE\<close>
  raises the generic \<^verbatim>\<open>UNEXPECTED_RESPONSE\<close> error carrying 503, which is not the
  server-unavailable error; answered with 401 it raises the same generic error
  carrying 401. The POST of the connection probe, \<^verbatim>\<open>makeSessionRequest\<close>, given the
  same answers raises the server-unavailable and the authentication error.
\<close>

theorem session_post_503_unclassified:
  "makeRequestWithSSE P rid unavailable_exchange
     = Inl (FigmaClientError ''Unexpected session response: 503''
              ''UNEXPECTED_RESPONSE'' (Some 503))
   \<and> makeRequestWithSSE P rid unavailable_exchange \<noteq> Inl FigmaServerUnavailableError
   \<and> makeSessionRequest P rid (post_response unavailable_exchange)
     = Inl FigmaServerUnavailableError
   \<and> makeRequestWithSSE P rid unauthorized_exchange
     = Inl (FigmaClientError ''Unexpected session response: 401''
              ''UNEXPECTED_RESPONSE'' (Some 401))
   \<and> makeSessionRequest P rid (post_response unauthorized_exchange)
     = Inl FigmaAuthenticationError"
  by (simp add: makeRequestWithSSE_def sse_request_body_def unavailable_exchange_def
      unauthorized_exchange_def ok_def find_sessionEndpoint_def classify_request_error_def
      string_of_nat.simps makeSessionRequest_def session_request_body_def)

section \<open>Properties of the transport: response correlation\<close>

text \<open>
  What the listener does get right: an accepted response carries the request's id
  whatever id the frame had, and nothing that the stream delivers afterwards changes
  the answer.
\<close>

lemma accept_data_id: "accept_data P rid d = Some r \<Longrightarrow> get_prop r ''id'' = Some rid"
  by (auto simp: accept_data_def update_conv split: option.splits json.splits if_splits)

lemma scan_lines_id: "scan_lines P rid ls = Some r \<Longrightarrow> get_prop r ''id'' = Some rid"
  by (induction P rid ls rule: scan_lines.induct)
     (auto split: if_splits list.splits option.splits dest: accept_data_id)

lemma listen_id: "listenForResponse P rid buf reads = Inr r \<Longrightarrow> get_prop r ''id'' = Some rid"
  by (induction P rid buf reads rule: listenForResponse.induct)
     (auto simp: Let_def split: if_splits option.splits dest: scan_lines_id)

lemma listen_ignores_rest:
  "listenForResponse P rid buf reads = Inr r
   \<Longrightarrow> listenForResponse P rid buf (reads @ later) = Inr r"
  by (induction P rid buf reads rule: listenForResponse.induct)
     (auto simp: Let_def split: if_splits option.splits)

text \<open>The field test is one of truthiness: a result of 0 is passed over.\<close>

lemma falsy_result_passed_over:
  \<open>accept_data sample_JSON_parse (JNum 7) ''{"jsonrpc":"2.0","id":41,"result":0}'' = None\<close>
  by code_simp

text \<open>
  A frame whose event line ends one read and whose data line comes with the next is
  lost, whatever the data line holds: the listener goes on as if neither line had
  been there.
\<close>

lemma split_lines_terminated:
  "CHR 0x0A \<notin> set s \<Longrightarrow> split_lines (s @ [CHR 0x0A]) = [s, []]"
  by (induction s) auto

lemma strip_white_suffix: "suffix (strip_white two three s) s"
  by (induction two three s rule: strip_white.induct) (auto intro: suffix_ConsI)

lemma strip_tail_prefix: "prefix (rev (strip_white two three (rev s))) s"
  using strip_white_suffix[of two three "rev s"] by (simp add: suffix_to_prefix)

lemma data_line_is_no_event: "\<not> prefix ''event: message'' (trim (''data: '' @ d))"
proof
  assume event: "prefix ''event: message'' (trim (''data: '' @ d))"
  have front: "strip_white white_space_2 white_space_3 (''data: '' @ d) = ''data: '' @ d"
    by (simp add: is_space_def white_space_2_def white_space_3_def)
  have "prefix (trim (''data: '' @ d)) (''data: '' @ d)"
    unfolding trim_def front by (rule strip_tail_prefix)
  with event have "prefix ''event: message'' (''data: '' @ d)"
    by (rule prefix_order.trans)
  then show False by simp
qed

lemma line_behind_event_line:
  assumes "CHR 0x0A \<notin> set x" and "\<not> prefix ''event: message'' (trim x)"
  shows "listenForResponse P rid []
           (Chunk ''event: message\<newline>'' # Chunk (x @ [CHR 0x0A]) # reads)
         = listenForResponse P rid [] reads"
proof -
  have first: "split_lines ''event: message\<newline>'' = [''event: message'', []]"
    by code_simp
  have ev: "prefix ''event: message'' (trim ''event: message'')"
    by code_simp
  have one: "listenForResponse P rid [] (Chunk ''event: message\<newline>'' # rest)
      = listenForResponse P rid [] rest" for rest
    using first ev by (simp add: Let_def del: split_lines.simps)
  have two: "listenForResponse P rid [] (Chunk (x @ [CHR 0x0A]) # reads)
      = listenForResponse P rid [] reads"
    using assms(2)
    by (simp add: split_lines_terminated[OF assms(1)] Let_def del: split_lines.simps)
  show ?thesis by (simp only: one two)
qed

lemma frame_cut_behind_event_line:
  assumes "CHR 0x0A \<notin> set d"
  shows "listenForResponse P rid []
           (Chunk ''event: message\<newline>'' # Chunk (''data: '' @ d @ ''\<newline>'') # reads)
         = listenForResponse P rid [] reads"
proof -
  have "CHR 0x0A \<notin> set (''data: '' @ d)" using assms by simp
  from line_behind_event_line[OF this data_line_is_no_event, of P rid reads]
  show ?thesis by simp
qed

text \<open>
  Claim C3, evaluated. The stream carries a message frame whose data line parses and
  has a result (with id 41), and after it a second such frame (with id 42); the
  request has id 7. Delivered by one read, the first frame is accepted and its id is
  replaced by 7. Delivered by two reads that cut the data line of the first frame, the
  first frame is never accepted: its event line is consumed with the first read, and
  its data line, completed by the second read, has no event line before it. The
  response accepted then is the second frame; and without a second frame the call
  ends in the response timeout.
\<close>

theorem split_frame_is_lost:
  \<open>listenForResponse sample_JSON_parse (JNum 7) []
     [Chunk ''event: message\<newline>data: {"jsonrpc":"2.0","id":41,"result":{"content":[]}}\<newline>\<newline>event: message\<newline>data: {"jsonrpc":"2.0","id":42,"result":{"content":["second"]}}\<newline>\<newline>'']
     = Inr (JObj [(''jsonrpc'', JStr ''2.0''), (''id'', JNum 7),
                  (''result'', JObj [(''content'', JArr [])])])
   \<and> listenForResponse sample_JSON_parse (JNum 7) []
     [Chunk ''event: message\<newline>data: {"jsonrpc":"2.0","id":41,"res'',
      Chunk ''ult":{"content":[]}}\<newline>\<newline>event: message\<newline>data: {"jsonrpc":"2.0","id":42,"result":{"content":["second"]}}\<newline>\<newline>'']
     = Inr (JObj [(''jsonrpc'', JStr ''2.0''), (''id'', JNum 7),
                  (''result'', JObj [(''content'', JArr [JStr ''second''])])])
   \<and> listenForResponse sample_JSON_parse (JNum 7) []
     [Chunk ''event: message\<newline>data: {"jsonrpc":"2.0","id":41,"res'',
      Chunk ''ult":{"content":[]}}\<newline>\<newline>'']
     = Inl (FigmaClientError ''Response timeout'' ''TIMEOUT'' None)\<close>
  by code_simp

section \<open>Properties of the transport: retries\<close>

lemma attempts_of_spec: "attempts_of (spec_retry_trace a k) = [a..<a + k]"
  by (induction a k rule: spec_retry_trace.induct) (auto simp: attempts_of_def upt_rec)

lemma spec_retry_trace_step:
  "0 < k \<Longrightarrow> spec_retry_trace a (Suc k)
     = Attempt a # Sleep (spec_backoff a) # spec_retry_trace (Suc a) k"
  by (cases k) auto

text \<open>The three ways through one round of the loop.\<close>

lemma loop_stop:
  "\<not> int a \<le> N \<Longrightarrow> makeRequest_loop P N env a st = (Inl (lastError st), st)"
  by (simp add: makeRequest_loop.simps)

lemma loop_ok:
  "int a \<le> N \<Longrightarrow> makeRequestWithSSE P (JNum (real (requestId st + 1))) (env a) = Inr resp
   \<Longrightarrow> makeRequest_loop P N env a st
       = (Inr resp, st\<lparr>requestId := requestId st + 1, trace := trace st @ [Attempt a]\<rparr>)"
  by (simp add: makeRequest_loop.simps[of P N env a st] Let_def)

lemma loop_fail:
  assumes "int a \<le> N"
    and "makeRequestWithSSE P (JNum (real (requestId st + 1))) (env a) = Inl e"
  shows "makeRequest_loop P N env a st
       = makeRequest_loop P N env (Suc a)
           (st\<lparr>requestId := requestId st + 1, lastError := Some e,
               trace := trace st
                 @ Attempt a # (if int a < N then [Sleep (spec_backoff a)] else [])\<rparr>)"
proof -
  have "instanceof_Error e"
    using assms(2) sse_error_is_FigmaClientError FigmaClientError_is_Error by blast
  then show ?thesis using assms
    by (cases st) (simp add: makeRequest_loop.simps[of P N env a] Let_def spec_backoff_def)
qed

text \<open>
  The loop started at attempt \<open>a\<close> makes \<open>k\<close> attempts, logs exactly the specified
  schedule for them, and ends with the answer of the last attempt or, when there was
  no attempt, with the error it was started with.
\<close>

lemma loop_schedule:
  "makeRequest_loop P N env a st = (r, st') \<Longrightarrow>
   \<exists>k. trace st' = trace st @ spec_retry_trace a k
      \<and> int a + int k \<le> max (int a) (N + 1)
      \<and> (case r of
           Inr resp \<Rightarrow> 0 < k
             \<and> makeRequestWithSSE P (JNum (real (requestId st + k))) (env (a + k - 1)) = Inr resp
         | Inl le \<Rightarrow> int a + int k = max (int a) (N + 1) \<and>
             (if k = 0 then le = lastError st
              else makeRequestWithSSE P (JNum (real (requestId st + k))) (env (a + k - 1))
                     = Inl (the le) \<and> le \<noteq> None))"
proof (induction "nat (N + 1 - int a)" arbitrary: a st)
  case 0
  then have "\<not> int a \<le> N" by simp
  with 0 show ?case
    by (intro exI[of _ 0]) (auto simp: loop_stop)
next
  case (Suc m)
  then have le: "int a \<le> N" by simp
  show ?case
  proof (cases "makeRequestWithSSE P (JNum (real (requestId st + 1))) (env a)")
    case (Inr resp)
    with le Suc.prems show ?thesis
      by (intro exI[of _ 1]) (auto simp: loop_ok)
  next
    case (Inl e)
    define st3 where "st3 = st\<lparr>requestId := requestId st + 1, lastError := Some e,
       trace := trace st @ Attempt a # (if int a < N then [Sleep (spec_backoff a)] else [])\<rparr>"
    have rec: "makeRequest_loop P N env (Suc a) st3 = (r, st')"
      using loop_fail[of a N P st env e] le Inl Suc.prems by (simp add: st3_def)
    have m: "m = nat (N + 1 - int (Suc a))" using Suc.hyps(2) by simp
    from Suc.hyps(1)[OF m rec] obtain k where
      k: "trace st' = trace st3 @ spec_retry_trace (Suc a) k"
         "int (Suc a) + int k \<le> max (int (Suc a)) (N + 1)"
         "(case r of
           Inr resp \<Rightarrow> 0 < k
             \<and> makeRequestWithSSE P (JNum (real (requestId st3 + k))) (env (Suc a + k - 1))
                 = Inr resp
         | Inl le \<Rightarrow> int (Suc a) + int k = max (int (Suc a)) (N + 1) \<and>
             (if k = 0 then le = lastError st3
              else makeRequestWithSSE P (JNum (real (requestId st3 + k))) (env (Suc a + k - 1))
                     = Inl (the le) \<and> le \<noteq> None))"
      by blast
    show ?thesis
    proof (cases "k = 0")
      case True
      with k le have "int a = N" by (auto split: sum.splits)
      with True k Inl show ?thesis
        by (intro exI[of _ 1]) (auto simp: st3_def split: sum.splits)
    next
      case False
      with k le have "int a < N" by (auto split: sum.splits)
      with False k le show ?thesis
        by (intro exI[of _ "Suc k"]) (auto simp: st3_def spec_retry_trace_step split: sum.splits)
    qed
  qed
qed

text \<open>
  Claim C4. A call of \<open>makeRequest\<close> with \<open>retryAttempts = N\<close> makes at most \<open>N\<close>
  attempts (none when \<open>N\<close> is not positive). Its log of attempts and delays is the
  specified schedule for the attempts made: attempts 1, 2, ... in order, and after
  attempt \<open>n\<close>, when another attempt follows, a delay of
  \<open>min (1000 * 2 ^ (n - 1)) 5000\<close> milliseconds. When \<open>N\<close> is at least 1 and every
  attempt fails, all \<open>N\<close> attempts are made and the error thrown is the one of
  attempt \<open>N\<close>.
\<close>

theorem retry_policy:
  "int (length (attempts_of (trace (snd (makeRequest P N env rid))))) \<le> max 0 N
   \<and> trace (snd (makeRequest P N env rid))
       = spec_retry_trace 1 (length (attempts_of (trace (snd (makeRequest P N env rid)))))
   \<and> (1 \<le> N \<and> (\<forall>n. 1 \<le> n \<and> int n \<le> N
                    \<longrightarrow> makeRequestWithSSE P (JNum (real (rid + n))) (env n) = Inl (err n))
        \<longrightarrow> fst (makeRequest P N env rid) = Inl (Some (err (nat N)))
          \<and> length (attempts_of (trace (snd (makeRequest P N env rid)))) = nat N)"
proof -
  obtain r st' where run: "makeRequest P N env rid = (r, st')"
    by (cases "makeRequest P N env rid")
  define st0 where "st0 = \<lparr>requestId = rid, lastError = None, trace = []\<rparr>"
  have "makeRequest_loop P N env 1 st0 = (r, st')"
    using run by (simp add: makeRequest_def st0_def)
  from loop_schedule[OF this] obtain k where
    k: "trace st' = trace st0 @ spec_retry_trace 1 k"
       "int 1 + int k \<le> max (int 1) (N + 1)"
       "(case r of
           Inr resp \<Rightarrow> 0 < k
             \<and> makeRequestWithSSE P (JNum (real (requestId st0 + k))) (env (1 + k - 1)) = Inr resp
         | Inl le \<Rightarrow> int 1 + int k = max (int 1) (N + 1) \<and>
             (if k = 0 then le = lastError st0
              else makeRequestWithSSE P (JNum (real (requestId st0 + k))) (env (1 + k - 1))
                     = Inl (the le) \<and> le \<noteq> None))"
    by blast
  have tr: "trace st' = spec_retry_trace 1 k" using k(1) by (simp add: st0_def)
  have count: "int k \<le> max 0 N" using k(2) by simp
  have resR: "0 < k \<and> makeRequestWithSSE P (JNum (real (rid + k))) (env k) = Inr resp"
    if "r = Inr resp" for resp using k(3) that by (simp add: st0_def)
  have resL: "int k = max 0 N \<and> (k \<noteq> 0 \<longrightarrow>
      makeRequestWithSSE P (JNum (real (rid + k))) (env k) = Inl (the le) \<and> le \<noteq> None)"
    if "r = Inl le" for le using k(3) that by (auto simp add: st0_def)
  have len: "length (attempts_of (trace st')) = k"
    by (simp add: tr attempts_of_spec)
  have last: "r = Inl (Some (err (nat N))) \<and> k = nat N"
    if pos: "1 \<le> N"
    and fail: "\<forall>n. 1 \<le> n \<and> int n \<le> N
                 \<longrightarrow> makeRequestWithSSE P (JNum (real (rid + n))) (env n) = Inl (err n)"
  proof (cases r)
    case (Inr resp)
    from resR[OF Inr]
    have "0 < k" "makeRequestWithSSE P (JNum (real (rid + k))) (env k) = Inr resp"
      by auto
    moreover have "int k \<le> N" using count pos by simp
    ultimately have False using fail by (metis Inl_Inr_False One_nat_def Suc_leI)
    then show ?thesis ..
  next
    case (Inl le)
    from resL[OF Inl] pos have kN: "int k = N" by auto
    with pos have "k \<noteq> 0" by auto
    with resL[OF Inl] have "makeRequestWithSSE P (JNum (real (rid + k))) (env k) = Inl (the le)"
      and "le \<noteq> None" by auto
    moreover have "makeRequestWithSSE P (JNum (real (rid + k))) (env k) = Inl (err k)"
      using fail kN \<open>k \<noteq> 0\<close> by auto
    ultimately have "le = Some (err k)" by auto
    with Inl kN show ?thesis by auto
  qed
  show ?thesis using run len tr count last by auto
qed

lemma schedule_of_three:
  "spec_retry_trace 1 3 = [Attempt 1, Sleep 1000, Attempt 2, Sleep 2000, Attempt 3]"
  by code_simp

theorem retry_policy_witness:
  "fst (makeRequest (\<lambda>s. None) 3 (\<lambda>n. unavailable_exchange) 0)
     = Inl (Some (FigmaClientError ''Unexpected session response: 503''
                    ''UNEXPECTED_RESPONSE'' (Some 503)))
   \<and> trace (snd (makeRequest (\<lambda>s. None) 3 (\<lambda>n. unavailable_exchange) 0))
     = [Attempt 1, Sleep 1000, Attempt 2, Sleep 2000, Attempt 3]"
proof -
  let ?run = "makeRequest (\<lambda>s. None) 3 (\<lambda>n. unavailable_exchange) 0"
  note policy = retry_policy [of "\<lambda>s. None" 3 "\<lambda>n. unavailable_exchange" 0
      "\<lambda>n. FigmaClientError ''Unexpected session response: 503''
             ''UNEXPECTED_RESPONSE'' (Some 503)"]
  have surfaced: "fst ?run = Inl (Some (FigmaClientError ''Unexpected session response: 503''
                    ''UNEXPECTED_RESPONSE'' (Some 503)))"
    and count: "length (attempts_of (trace (snd ?run))) = 3"
    using policy unavailable_fails by simp_all
  have "trace (snd ?run) = spec_retry_trace 1 (length (attempts_of (trace (snd ?run))))"
    using policy by blast
  then have "trace (snd ?run) = spec_retry_trace 1 3"
    unfolding count .
  then show ?thesis using surfaced schedule_of_three by simp
qed

section \<open>Properties of the extractor: steps\<close>

lemma and_then_Normal [simp]: "and_then (Normal a, s) f = f a s"
  by (simp add: and_then_def)

lemma and_then_Throws [simp]: "and_then (Throws e, s) f = (Throws e, s)"
  by (simp add: and_then_def)

lemma and_then_Hangs [simp]: "and_then (Hangs, s) f = (Hangs, s)"
  by (simp add: and_then_def)

lemma push_warning_fields [simp]:
  "st_result (push_warning w s) = st_result s"
  "st_errors (push_warning w s) = st_errors s"
  "st_calls (push_warning w s) = st_calls s"
  "st_events (push_warning w s) = st_events s"
  by (simp_all add: push_warning_def)


text \<open>No step of the ladder waits forever; only the probe can.\<close>

lemma no_hang_simps [simp]:
  "no_hang (Normal a, s)" "no_hang (Throws e, s)" "\<not> no_hang (Hangs, s)"
  by (simp_all add: no_hang_def)

lemma no_hang_emit [simp]: "no_hang (emit onProgress ev s)"
  by (simp add: no_hang_def emit_def split: option.splits)

lemma no_hang_and_then:
  "no_hang m \<Longrightarrow> (\<And>a s. no_hang (f a s)) \<Longrightarrow> no_hang (and_then m f)"
  by (cases m; cases "fst m") (auto simp: and_then_def no_hang_def)

lemma no_hang_level_catch: "no_hang m \<Longrightarrow> no_hang (level_catch name m)"
  by (cases m; cases "fst m") (auto simp: level_catch_def no_hang_def)

lemma no_hang_code_phase:
  "no_hang (optimal_code_phase client onProgress i u nid timeouts inc cplx s)"
  unfolding optimal_code_phase_def
  by (auto intro!: no_hang_and_then simp: Let_def split: prod.splits)

lemma no_hang_level1:
  "no_hang (tryOptimalExtraction client onProgress i u nid timeouts inc cplx s)"
  unfolding tryOptimalExtraction_def tryOptimalExtraction_body_def
  by (auto intro!: no_hang_level_catch no_hang_and_then no_hang_code_phase
      simp: Let_def split: prod.splits)

lemma no_hang_level2: "no_hang (tryBalancedExtraction client onProgress u nid s)"
  unfolding tryBalancedExtraction_def tryBalancedExtraction_body_def
  by (auto intro!: no_hang_level_catch no_hang_and_then simp: Let_def split: prod.splits)

lemma no_hang_level3: "no_hang (tryMinimalExtraction client onProgress u nid s)"
  unfolding tryMinimalExtraction_def tryMinimalExtraction_body_def
  by (auto intro!: no_hang_level_catch no_hang_and_then simp: Let_def split: prod.splits)

lemma no_hang_level4: "no_hang (executeEmergencyFallback onProgress u nid s)"
  unfolding executeEmergencyFallback_def
  by (auto intro!: no_hang_and_then simp: Let_def split: sum.splits prod.splits)

lemma no_hang_ladder:
  "no_hang (executeProgressiveFallbackExtraction client onProgress i u nid cplx s)"
  unfolding executeProgressiveFallbackExtraction_def Let_def
  by (intro no_hang_and_then no_hang_level1)
     (auto intro!: no_hang_and_then no_hang_level2 no_hang_level3 no_hang_level4)

lemma no_hang_stages: "no_hang (executeExtractionStages client onProgress i u s)"
  unfolding executeExtractionStages_def Let_def
  by (intro no_hang_and_then no_hang_ladder no_hang_emit)

lemma pipeline_hangs_only_on_probe:
  "testConnection client \<noteq> Pending \<Longrightarrow> no_hang (pipeline_body client onProgress i s)"
  unfolding pipeline_body_def Let_def
  by (auto intro!: no_hang_and_then no_hang_stages
      split: option.splits figma_data_arg.splits promise.splits sum.splits)

section \<open>Properties of the extractor: pass-through\<close>





section \<open>Properties of the extractor: the ladder\<close>










section \<open>Properties of the extractor: failures\<close>

text \<open>
  A probe that returns false ends every URL-only run the same way: the error thrown
  for it is caught by the function itself.
\<close>

lemma probe_false_is_caught:
  assumes "\<forall>d. input_figmaData i \<noteq> Some (FigmaData d)"
    and "truthy_string (input_url i)"
    and "testConnection client = Fulfilled False"
    and "onProgress [] (updateStage ''complete'' 0 (Literal (''Extraction failed: ''
           @ error_message FigmaServerUnavailableError))) = None"
  shows "extractWithProgress client onProgress i =
     \<lparr>settled = Fulfilled
        \<lparr>success = False, figmaData = st_result (initial_state i), warnings = [],
         errors = [error_message FigmaServerUnavailableError]\<rparr>,
      progress = [updateStage ''complete'' 0 (Literal (''Extraction failed: ''
           @ error_message FigmaServerUnavailableError))],
      client_calls = [TestConnection]\<rparr>"
proof -
  have "pipeline_body client onProgress i (initial_state i)
      = (Throws FigmaServerUnavailableError,
         (initial_state i)\<lparr>st_calls := [TestConnection]\<rparr>)"
    using assms(1-3)
    by (auto simp: pipeline_body_def Let_def initial_state_def
        split: option.splits figma_data_arg.splits)
  then show ?thesis using assms(4)
    by (simp add: extractWithProgress_def Let_def message_or_string_def push_error_def
        emit_def buildErrorResult_def initial_state_def)
qed

text \<open>
  Claim C2, evaluated. The claim has the promise reject with the server-unavailable
  error when the probe returns false. For the URL of the scenario and a probe that
  returns false, the promise is fulfilled: the result has \<open>success\<close> false and the
  error's message in \<open>errors\<close>, the callback is told that the extraction failed, and
  the probe is the only call made on the client.
\<close>

theorem unreachable_server_resolves:
  "extractWithProgress unreachable_client quiet_callback
     (url_input ''https://x.com/design/ABC123/Foo?node-id=10-20'')
   = \<lparr>settled = Fulfilled
        \<lparr>success = False,
         figmaData = \<lparr>fileId = [], nodeId = None,
            url = ''https://x.com/design/ABC123/Foo?node-id=10-20'',
            code = JNull, components = JArr [], variables = JArr [], codeConnectMap = JArr [],
            metadata = None\<rparr>,
         warnings = [],
         errors = [''Figma MCP server is not available. Please ensure Figma desktop app is running.'']\<rparr>,
      progress = [\<lparr>stage = ''complete'', percentage = 0,
         message = Literal ''Extraction failed: Figma MCP server is not available. Please ensure Figma desktop app is running.''\<rparr>],
      client_calls = [TestConnection]\<rparr>"
  by code_simp

text \<open>
  The handler of \<^verbatim>\<open>extractWithProgress\<close> calls the callback outside any \<^verbatim>\<open>try\<close>. With
  a probe that returns false and a callback that throws, the error of the probe is
  caught, the callback is told of the failure, and what the callback throws then
  rejects the promise.
\<close>

theorem throwing_callback_rejects:
  "settled (extractWithProgress unreachable_client throwing_callback
              (url_input ''https://www.figma.com/design/ABC123/Foo?node-id=10-20''))
   = RejectedWith (JsError ''observer failed'')"
  by code_simp

text \<open>
  Claim C10, with the condition on the callback that the run above forces. Provided
  the progress callback returns from the event that reports the failure (stage
  complete, 0 percent, \<^verbatim>\<open>Extraction failed: ...\<close>), whatever the input, the client and
  the callback do otherwise: the promise is never rejected; it is fulfilled unless the
  probe never settles; and whenever the body of the pipeline throws, the promise is
  fulfilled with a result whose \<open>success\<close> is false, whose \<open>errors\<close> are the errors
  collected so far followed by the message of what was thrown, and whose data is the
  result as far as it was built.
\<close>

theorem extract_never_rejects:
  assumes reports: "\<forall>h m. onProgress h
      (updateStage ''complete'' 0 (Literal (''Extraction failed: '' @ m))) = None"
  shows "(\<forall>e. settled (extractWithProgress client onProgress i) \<noteq> RejectedWith e)
     \<and> (testConnection client \<noteq> Pending
          \<longrightarrow> (\<exists>r. settled (extractWithProgress client onProgress i) = Fulfilled r))
     \<and> (\<forall>e s. pipeline_body client onProgress i (initial_state i) = (Throws e, s)
          \<longrightarrow> (\<exists>r. settled (extractWithProgress client onProgress i) = Fulfilled r
                 \<and> \<not> success r
                 \<and> errors r = st_errors s @ [message_or_string e]
                 \<and> figmaData r = st_result s))"
proof -
  obtain c s where body: "pipeline_body client onProgress i (initial_state i) = (c, s)"
    by (cases "pipeline_body client onProgress i (initial_state i)")
  have hang: "c \<noteq> Hangs" if "testConnection client \<noteq> Pending"
    using pipeline_hangs_only_on_probe[OF that, of onProgress i "initial_state i"] body
    by (simp add: no_hang_def)
  show ?thesis
  proof (cases c)
    case (Normal a)
    then show ?thesis using body by (simp add: extractWithProgress_def)
  next
    case (Throws e)
    then show ?thesis using body reports
      by (simp add: extractWithProgress_def emit_def Let_def push_error_def buildErrorResult_def)
  next
    case Hangs
    then show ?thesis using body hang by (auto simp add: extractWithProgress_def)
  qed
qed

lemma picky_callback_reports:
  "\<forall>h m. picky_callback h
      (updateStage ''complete'' 0 (Literal (''Extraction failed: '' @ m))) = None"
  by (simp add: picky_callback_def updateStage_def)

lemma invalid_url_throws:
  "pipeline_body failing_client picky_callback (url_input ''not-a-url'')
       (initial_state (url_input ''not-a-url''))
   = (Throws (FigmaClientError ''Invalid Figma URL format'' ''INVALID_URL'' None),
      (initial_state (url_input ''not-a-url''))\<lparr>st_calls := [TestConnection]\<rparr>)"
  by code_simp

theorem extract_never_rejects_witness:
  "(\<forall>e. settled (extractWithProgress failing_client picky_callback (url_input ''not-a-url''))
         \<noteq> RejectedWith e)
   \<and> (\<exists>r. settled (extractWithProgress failing_client picky_callback (url_input ''not-a-url''))
            = Fulfilled r
          \<and> \<not> success r \<and> errors r = [''Invalid Figma URL format''])"
proof -
  let ?run = "extractWithProgress failing_client picky_callback (url_input ''not-a-url'')"
  let ?s = "(initial_state (url_input ''not-a-url''))\<lparr>st_calls := [TestConnection]\<rparr>"
  let ?e = "FigmaClientError ''Invalid Figma URL format'' ''INVALID_URL'' None"
  note caught = extract_never_rejects [OF picky_callback_reports,
      of failing_client "url_input ''not-a-url''"]
  have never: "\<forall>e. settled ?run \<noteq> RejectedWith e"
    using caught by blast
  have "\<exists>r. settled ?run = Fulfilled r \<and> \<not> success r
              \<and> errors r = st_errors ?s @ [message_or_string ?e]"
    using caught invalid_url_throws by blast
  then have "\<exists>r. settled ?run = Fulfilled r \<and> \<not> success r
              \<and> errors r = [''Invalid Figma URL format'']"
    by (simp add: initial_state_def message_or_string_def)
  with never show ?thesis by blast
qed

end
